theory Spec2Isabelle
  imports Main "HOL-Library.Sublist"
begin

section \<open>The tag-and-build executor of nx-build-tools\<close>

text \<open>
  A shallow embedding of \<^verbatim>\<open>build-tools/src/executors/tag-and-build/tag-and-build.ts\<close>.
  The executor is one asynchronous function. Its collaborators (the manifest reader, the
  shell, the build system's executor runner, the path library and the regular-expression
  engine) are the fields of a record \<open>world\<close>; what the executor does to them, and what
  it writes to the console, is returned as a list of effects in the order of execution.
  A string is a list of characters, each standing for one UTF-16 code unit below 256.
\<close>

subsection \<open>JavaScript values and string operations\<close>

text \<open>A value of type \<^verbatim>\<open>string | null | undefined\<close> is a \<open>string option\<close>; it is
  truthy when it is a non-empty string.\<close>

definition truthy :: "string option \<Rightarrow> bool" where
  "truthy x = (case x of None \<Rightarrow> False | Some s \<Rightarrow> s \<noteq> [])"

text \<open>A template literal renders \<^verbatim>\<open>undefined\<close> by its name.\<close>

definition template :: "string option \<Rightarrow> string" where
  "template x = (case x of None \<Rightarrow> ''undefined'' | Some s \<Rightarrow> s)"

text \<open>Reading an array at an index: \<^verbatim>\<open>undefined\<close> past the end.\<close>

fun at_index :: "'a list \<Rightarrow> nat \<Rightarrow> 'a option" where
  "at_index [] n = None"
| "at_index (x # xs) 0 = Some x"
| "at_index (x # xs) (Suc n) = at_index xs n"

text \<open>\<^verbatim>\<open>String.prototype.split\<close> with a separator of one character: the pieces between
  the separators, one piece (the empty one) for the empty string.\<close>

fun split_on :: "char \<Rightarrow> string \<Rightarrow> string list" where
  "split_on c [] = [[]]"
| "split_on c (x # xs) =
     (if x = c then [] # split_on c xs
      else (case split_on c xs of [] \<Rightarrow> [[x]] | y # ys \<Rightarrow> (x # y) # ys))"

text \<open>\<^verbatim>\<open>String.prototype.trim\<close>: white space and line terminators are removed at both
  ends (tab, line feed, vertical tab, form feed, carriage return, space, no-break space).\<close>

definition is_whitespace :: "char \<Rightarrow> bool" where
  "is_whitespace c =
     (c = CHR 0x09 \<or> c = CHR 0x0A \<or> c = CHR 0x0B \<or> c = CHR 0x0C \<or> c = CHR 0x0D \<or>
      c = CHR 0x20 \<or> c = CHR 0xA0)"

definition trim :: "string \<Rightarrow> string" where
  "trim s = rev (dropWhile is_whitespace (rev (dropWhile is_whitespace s)))"

text \<open>\<^verbatim>\<open>Array.prototype.join\<close>.\<close>

fun join_with :: "string \<Rightarrow> string list \<Rightarrow> string" where
  "join_with sep [] = []"
| "join_with sep [x] = x"
| "join_with sep (x # y # ys) = x @ sep @ join_with sep (y # ys)"

definition nl :: string where
  "nl = [CHR 0x0A]"

definition squote :: string where
  "squote = [CHR 0x27]"

definition dquote :: string where
  "dquote = [CHR 0x22]"

subsection \<open>Options, context and collaborators\<close>

text \<open>\<^verbatim>\<open>TagAndBuildExecutorSchema\<close>. The executor tests \<^verbatim>\<open>dockerfile\<close>,
  \<^verbatim>\<open>context\<close>, \<^verbatim>\<open>push\<close>, \<^verbatim>\<open>additionalTags\<close>, \<^verbatim>\<open>generateMajorMinor\<close> and
  \<^verbatim>\<open>tagPrefix\<close> for truthiness, so each may be missing at run time. The field
  \<^verbatim>\<open>context\<close> carries the name the executor gives it, \<open>dockerContext\<close>.\<close>

record schema =
  appName :: string
  dockerRepository :: string
  buildTarget :: string
  dockerfile :: "string option"
  dockerContext :: "string option"
  push :: "bool option"
  additionalTags :: "string list option"
  generateMajorMinor :: "bool option"
  tagPrefix :: "string option"

text \<open>The part of \<^verbatim>\<open>ExecutorContext\<close> the executor reads: the workspace root and the
  project configurations, each with the project's own root.\<close>

record projectConfiguration =
  project_root :: string

record executorContext =
  root :: string
  projects :: "string \<rightharpoonup> projectConfiguration"

text \<open>The manifest as \<^verbatim>\<open>readJsonFile\<close> returns it: its \<^verbatim>\<open>version\<close> field, when it
  is a string (\<open>None\<close> when the field is missing or null).\<close>

record packageJson =
  version :: "string option"

text \<open>A compiled regular expression without flags: \<^verbatim>\<open>exec\<close> gives the match array (the
  whole match, then the capture groups, \<open>None\<close> for a group that took no part) or
  \<^verbatim>\<open>null\<close>; \<^verbatim>\<open>test\<close> is \<^verbatim>\<open>exec\<close> not being null, and \<^verbatim>\<open>String.prototype.match\<close> is
  \<^verbatim>\<open>exec\<close>.\<close>

record regexp =
  re_exec :: "string \<Rightarrow> string option list option"
  re_toString :: string

text \<open>The collaborators. \<open>Inl e\<close> is a call that throws (a promise that rejects) with
  an error rendered as \<open>e\<close>. \<open>exec\<close> resolves to standard output and standard error.
  \<open>runExecutor\<close> takes project, target and configuration and resolves to the results the
  asynchronous iterator yields, each either \<^verbatim>\<open>{ success }\<close> or a rejection that ends
  the iteration. Every collaborator is assumed to answer.\<close>

record world =
  readJsonFile :: "string \<Rightarrow> string + packageJson"
  exec :: "string \<Rightarrow> string + (string \<times> string)"
  runExecutor :: "string \<Rightarrow> string \<Rightarrow> string \<Rightarrow> string + (string + bool) list"
  path_join :: "string \<Rightarrow> string \<Rightarrow> string"
  new_RegExp :: "string \<Rightarrow> string + regexp"

datatype effect =
    ConsoleLog string
  | ConsoleLogOptions string schema
  | ConsoleWarn string
  | ConsoleError string
  | ReadJsonFile string
  | Exec string
  | RunExecutor string string string

text \<open>How the promise of the executor settles: resolved with \<^verbatim>\<open>{ success }\<close>, or
  rejected by an error nothing catches.\<close>

datatype outcome = Returned bool | Rejected string

text \<open>The three variables of version resolution.\<close>

record versions =
  appVersion :: "string option"
  majorMinorVersion :: "string option"
  majorVersion :: "string option"

subsection \<open>Console messages\<close>

text \<open>One definition for each message the executor writes, built as its template
  literal builds it.\<close>

definition msg_starting :: "string \<Rightarrow> string" where
  "msg_starting app =
     nl @ ''---Starting Docker Image Tag & Build executor for '' @ app @ ''---'' @ nl"

definition msg_project_not_found :: "string \<Rightarrow> string" where
  "msg_project_not_found app =
     ''Error: Project configuration for '' @ squote @ app @ squote @ '' not found.''"

definition msg_found_version :: "string \<Rightarrow> string" where
  "msg_found_version v = ''Found version '' @ v @ '' in package.json''"

definition msg_version_not_set :: "string \<Rightarrow> string" where
  "msg_version_not_set app =
     ''Warning: Version is not set in package.json for '' @ squote @ app @ squote @
     ''. Attempting to derive from Git tags.''"

definition msg_could_not_read :: "string \<Rightarrow> string \<Rightarrow> string \<Rightarrow> string" where
  "msg_could_not_read app packageJsonPath readError =
     ''Warning: Could not read package.json for '' @ squote @ app @ squote @ '' at '' @
     packageJsonPath @ '': '' @ readError @ ''. Attempting to derive from Git tags.''"

definition msg_attempting :: string where
  "msg_attempting = ''Attempting to derive version from Git tags...''"

definition msg_extracted :: "string \<Rightarrow> string" where
  "msg_extracted v = ''Extracted version '' @ v @ '' from Git tag''"

definition msg_no_matching_tag :: "string \<Rightarrow> regexp \<Rightarrow> string" where
  "msg_no_matching_tag app targetTagPattern =
     ''Error: Could not find Git tag for '' @ app @ '' matching pattern '' @
     re_toString targetTagPattern"

definition msg_please_release :: string where
  "msg_please_release =
     ''Please ensure your project has been released and a corresponding Git tag exists (e.g., frontend/v1.2.3).''"

definition msg_no_relevant_tags :: "string \<Rightarrow> string" where
  "msg_no_relevant_tags app = ''Warning: No relevant Git tags found for '' @ app"

definition msg_error_reading_tags :: "string \<Rightarrow> string \<Rightarrow> string" where
  "msg_error_reading_tags app err =
     nl @ ''Error reading Git tags for '' @ squote @ app @ squote @ '': '' @ err @
     ''. Ensure Git is available and the repository has tags.''"

definition msg_no_version :: "string \<Rightarrow> string" where
  "msg_no_version app =
     nl @ ''Error: Could not determine version for '' @ squote @ app @ squote @
     ''. Please ensure your project has a version set in package.json or a corresponding Git tag exists.''"

definition msg_running_build :: "string \<Rightarrow> string \<Rightarrow> string" where
  "msg_running_build target app =
     nl @ ''Running build target '' @ squote @ target @ squote @ '' for '' @ squote @ app @
     squote @ ''...''"

definition msg_build_ok :: "string \<Rightarrow> string \<Rightarrow> string" where
  "msg_build_ok target app =
     ''Build target '' @ squote @ target @ squote @ '' for '' @ squote @ app @ squote @
     '' completed successfully''"

definition msg_build_failed :: "string \<Rightarrow> string \<Rightarrow> string" where
  "msg_build_failed target app =
     ''Build target '' @ squote @ target @ squote @ '' for '' @ squote @ app @ squote @
     '' failed''"

definition msg_generated_tags :: "string list \<Rightarrow> string" where
  "msg_generated_tags tags = nl @ ''Generated Docker Tags: '' @ join_with '', '' tags"

definition msg_executing :: "string \<Rightarrow> string" where
  "msg_executing cmd = nl @ ''Executing Docker build command:'' @ nl @ cmd @ nl"

definition msg_docker_ok :: "string \<Rightarrow> string" where
  "msg_docker_ok app =
     nl @ ''--- Successfully built and tagged/pushed Docker image(s) for '' @ squote @ app @
     squote @ '' ---''"

definition msg_docker_failed :: "string \<Rightarrow> string" where
  "msg_docker_failed app =
     nl @ ''Error: Docker build failed for '' @ squote @ app @ squote @ ''.''"

subsection \<open>Version resolution\<close>

text \<open>Lines 45 to 49, and again 86 to 89: the version is split at the dots, the first
  two pieces are taken by destructuring (the second is \<^verbatim>\<open>undefined\<close> when there is
  one piece only), and the compound is the template \<^verbatim>\<open>${major}.${minor}\<close>.\<close>

definition setVersion :: "string \<Rightarrow> versions" where
  "setVersion v =
     (let parts = split_on (CHR ''.'') v;
          major = at_index parts 0;
          minor = at_index parts 1
      in \<lparr>appVersion = Some v,
          majorMinorVersion = Some (template major @ ''.'' @ template minor),
          majorVersion = major\<rparr>)"

definition noVersion :: versions where
  "noVersion = \<lparr>appVersion = None, majorMinorVersion = None, majorVersion = None\<rparr>"

text \<open>Lines 40 to 64: the manifest. A read that throws is caught and logged as a warning.
  (The outer handler of line 60 guards \<^verbatim>\<open>path.join\<close>, which does not throw on
  strings.)\<close>

definition readPackageJson :: "world \<Rightarrow> schema \<Rightarrow> string \<Rightarrow> effect list \<times> versions" where
  "readPackageJson w options projectRoot =
     (let packageJsonPath = path_join w projectRoot ''package.json'' in
      case readJsonFile w packageJsonPath of
        Inl readError \<Rightarrow>
          ([ReadJsonFile packageJsonPath,
            ConsoleWarn (msg_could_not_read (appName options) packageJsonPath readError)],
           noVersion)
      | Inr pkg \<Rightarrow>
          (if truthy (version pkg) then
             ([ReadJsonFile packageJsonPath,
               ConsoleLog (msg_found_version (template (version pkg)))],
              setVersion (template (version pkg)))
           else
             ([ReadJsonFile packageJsonPath,
               ConsoleWarn (msg_version_not_set (appName options))],
              noVersion)))"

definition git_tag_command :: string where
  "git_tag_command = ''git tag --points-at HEAD''"

definition git_rev_parse_command :: string where
  "git_rev_parse_command = ''git rev-parse HEAD''"

text \<open>Line 72: the tags that point at the current revision, one for each non-empty line.\<close>

definition parseTags :: "string \<Rightarrow> string list" where
  "parseTags gitTagsOutput = filter (\<lambda>t. t \<noteq> []) (split_on (CHR 0x0A) (trim gitTagsOutput))"

text \<open>Lines 74 to 77: the source of the pattern.\<close>

definition effectiveTagPrefix :: "schema \<Rightarrow> string" where
  "effectiveTagPrefix options =
     (if truthy (tagPrefix options) then template (tagPrefix options) else ''v'')"

definition targetTagPattern_source :: "schema \<Rightarrow> string" where
  "targetTagPattern_source options =
     ''^'' @ appName options @ ''/'' @ effectiveTagPrefix options @ ''(.*)$''"

text \<open>Line 84: \<^verbatim>\<open>match && match[1] ? match[1] : null\<close>.\<close>

definition capturedVersion :: "string option list option \<Rightarrow> string option" where
  "capturedVersion m =
     (case m of
        None \<Rightarrow> None
      | Some groups \<Rightarrow>
          (case at_index groups 1 of
             Some (Some g) \<Rightarrow> (if g \<noteq> [] then Some g else None)
           | _ \<Rightarrow> None))"

text \<open>Lines 66 to 114: the fallback to the revision tags. \<open>Inl\<close> is an early return of
  the executor. Everything from the listing of the tags to the inspection of the match is
  under one handler (line 108), which also catches a pattern that does not compile.\<close>

definition deriveFromGitTags ::
  "world \<Rightarrow> schema \<Rightarrow> versions \<Rightarrow> effect list \<times> (outcome + versions)" where
  "deriveFromGitTags w options vs =
     (if truthy (appVersion vs) then ([], Inr vs)
      else
        (case exec w git_tag_command of
           Inl err \<Rightarrow>
             ([ConsoleLog msg_attempting, Exec git_tag_command,
               ConsoleError (msg_error_reading_tags (appName options) err)],
              Inl (Returned False))
         | Inr (gitTagsOutput, _) \<Rightarrow>
             (case new_RegExp w (targetTagPattern_source options) of
                Inl err \<Rightarrow>
                  ([ConsoleLog msg_attempting, Exec git_tag_command,
                    ConsoleError (msg_error_reading_tags (appName options) err)],
                   Inl (Returned False))
              | Inr targetTagPattern \<Rightarrow>
                  (let tags = parseTags gitTagsOutput;
                       relevantTags = find (\<lambda>tag. re_exec targetTagPattern tag \<noteq> None) tags
                   in if truthy relevantTags then
                        (case capturedVersion (re_exec targetTagPattern (template relevantTags)) of
                           Some v \<Rightarrow>
                             ([ConsoleLog msg_attempting, Exec git_tag_command,
                               ConsoleLog (msg_extracted v)],
                              Inr (setVersion v))
                         | None \<Rightarrow>
                             ([ConsoleLog msg_attempting, Exec git_tag_command,
                               ConsoleError (msg_no_matching_tag (appName options) targetTagPattern),
                               ConsoleError msg_please_release],
                              Inl (Returned False)))
                      else
                        ([ConsoleLog msg_attempting, Exec git_tag_command,
                          ConsoleWarn (msg_no_relevant_tags (appName options))],
                         Inr vs)))))"

text \<open>Lines 36 to 121: both sources in turn, then the check that a version was found.
  On success the version is passed on as a string.\<close>

definition resolveVersion ::
  "world \<Rightarrow> schema \<Rightarrow> string \<Rightarrow> effect list \<times> (outcome + string \<times> versions)" where
  "resolveVersion w options projectRoot =
     (case readPackageJson w options projectRoot of
        (e1, vs1) \<Rightarrow>
          (case deriveFromGitTags w options vs1 of
             (e2, Inl out) \<Rightarrow> (e1 @ e2, Inl out)
           | (e2, Inr vs2) \<Rightarrow>
               (if truthy (appVersion vs2) then (e1 @ e2, Inr (template (appVersion vs2), vs2))
                else
                  (e1 @ e2 @ [ConsoleError (msg_no_version (appName options))],
                   Inl (Returned False)))))"

subsection \<open>The build target\<close>

text \<open>Lines 134 to 143: the results of the build target are read one after the other;
  the first one that is not a success ends the executor.\<close>

fun forAwait :: "schema \<Rightarrow> (string + bool) list \<Rightarrow> effect list \<times> (outcome + unit)" where
  "forAwait options [] = ([], Inr ())"
| "forAwait options (Inl err # rest) = ([], Inl (Rejected err))"
| "forAwait options (Inr success # rest) =
     (if success then
        (case forAwait options rest of
           (es, r) \<Rightarrow>
             (ConsoleLog (msg_build_ok (buildTarget options) (appName options)) # es, r))
      else
        ([ConsoleError (msg_build_failed (buildTarget options) (appName options))],
         Inl (Returned False)))"

text \<open>Lines 123 to 143.\<close>

definition runBuild :: "world \<Rightarrow> schema \<Rightarrow> effect list \<times> (outcome + unit)" where
  "runBuild w options =
     (let started =
            [ConsoleLog (msg_running_build (buildTarget options) (appName options)),
             RunExecutor (appName options) (buildTarget options) ''production'']
      in case runExecutor w (appName options) (buildTarget options) ''production'' of
           Inl err \<Rightarrow> (started, Inl (Rejected err))
         | Inr buildResult \<Rightarrow>
             (case forAwait options buildResult of (es, r) \<Rightarrow> (started @ es, r)))"

subsection \<open>Tags and the container build\<close>

text \<open>Lines 145 to 164 and 168: the tags, in the order they are pushed. \<open>gitSha\<close> is the
  short revision identifier of line 167.\<close>

definition dockerTags ::
  "schema \<Rightarrow> string \<Rightarrow> string option \<Rightarrow> string option \<Rightarrow> string \<Rightarrow> string list" where
  "dockerTags options appVersion' majorMinorVersion' majorVersion' gitSha =
     (let baseImageName = dockerRepository options @ ''/'' @ appName options
      in [baseImageName @ '':'' @ appVersion']
         @ (if generateMajorMinor options = Some True then
              (if truthy majorMinorVersion' \<and> majorMinorVersion' \<noteq> Some appVersion'
               then [baseImageName @ '':'' @ template majorMinorVersion'] else [])
              @ (if truthy majorVersion' \<and> majorVersion' \<noteq> Some appVersion'
                    \<and> majorVersion' \<noteq> majorMinorVersion'
                 then [baseImageName @ '':'' @ template majorVersion'] else [])
            else [])
         @ (case additionalTags options of
              None \<Rightarrow> []
            | Some ts \<Rightarrow>
                (if length ts > 0 then map (\<lambda>tag. baseImageName @ '':'' @ tag) ts else []))
         @ [baseImageName @ '':sha-'' @ gitSha])"

text \<open>Lines 181 to 184: where the Dockerfile and the build context are looked for.\<close>

definition finalDockerfile :: "world \<Rightarrow> schema \<Rightarrow> executorContext \<Rightarrow> string" where
  "finalDockerfile w options ctx =
     (if truthy (dockerfile options) then path_join w (root ctx) (template (dockerfile options))
      else path_join w (root ctx) ''Dockerfile'')"

definition finalContext :: "world \<Rightarrow> schema \<Rightarrow> executorContext \<Rightarrow> string" where
  "finalContext w options ctx =
     (if truthy (dockerContext options)
      then path_join w (root ctx) (template (dockerContext options))
      else root ctx)"

text \<open>Lines 172 to 188: the command line.\<close>

definition dockerCommand ::
  "world \<Rightarrow> schema \<Rightarrow> executorContext \<Rightarrow> string list \<Rightarrow> string \<Rightarrow> string \<Rightarrow> string" where
  "dockerCommand w options ctx tags appVersion' gitSha =
     ''docker buildx build''
     @ (if push options = Some True then '' --push'' else [])
     @ concat (map (\<lambda>tag. '' -t '' @ dquote @ tag @ dquote) tags)
     @ '' -f '' @ dquote @ finalDockerfile w options ctx @ dquote
     @ '' '' @ dquote @ finalContext w options ctx @ dquote
     @ '' --build-arg APP_VERSION='' @ dquote @ appVersion' @ dquote
     @ '' --build-arg BUILD_SHA='' @ dquote @ gitSha @ dquote"

text \<open>Line 167.\<close>

definition shortSha :: "string \<Rightarrow> string" where
  "shortSha gitShaOutput = take 7 (trim gitShaOutput)"

text \<open>Lines 145 to 203: the revision identifier is asked for outside any handler, the
  container build inside one.\<close>

definition dockerBuild ::
  "world \<Rightarrow> schema \<Rightarrow> executorContext \<Rightarrow> string \<Rightarrow> versions \<Rightarrow> effect list \<times> outcome" where
  "dockerBuild w options ctx appVersion' vs =
     (case exec w git_rev_parse_command of
        Inl err \<Rightarrow> ([Exec git_rev_parse_command], Rejected err)
      | Inr (gitShaOutput, _) \<Rightarrow>
          (let gitSha = shortSha gitShaOutput;
               tags = dockerTags options appVersion' (majorMinorVersion vs) (majorVersion vs) gitSha;
               cmd = dockerCommand w options ctx tags appVersion' gitSha;
               started =
                 [Exec git_rev_parse_command, ConsoleLog (msg_generated_tags tags),
                  ConsoleLog (msg_executing cmd), Exec cmd]
           in case exec w cmd of
                Inl err \<Rightarrow>
                  (started @ [ConsoleError (msg_docker_failed (appName options))],
                   Returned False)
              | Inr (_, stderr) \<Rightarrow>
                  (started @ (if stderr \<noteq> [] then [ConsoleError stderr] else [])
                     @ [ConsoleLog (msg_docker_ok (appName options))],
                   Returned True)))"

subsection \<open>The executor\<close>

definition tagAndBuild :: "world \<Rightarrow> schema \<Rightarrow> executorContext \<Rightarrow> effect list \<times> outcome" where
  "tagAndBuild w options ctx =
     (let e0 = [ConsoleLog (msg_starting (appName options)),
                ConsoleLogOptions ''Executor Options'' options]
      in case projects ctx (appName options) of
           None \<Rightarrow>
             (e0 @ [ConsoleError (msg_project_not_found (appName options))], Returned False)
         | Some projectConfig \<Rightarrow>
             (case resolveVersion w options (project_root projectConfig) of
                (e1, Inl out) \<Rightarrow> (e0 @ e1, out)
              | (e1, Inr (appVersion', vs)) \<Rightarrow>
                  (case runBuild w options of
                     (e2, Inl out) \<Rightarrow> (e0 @ e1 @ e2, out)
                   | (e2, Inr _) \<Rightarrow>
                       (case dockerBuild w options ctx appVersion' vs of
                          (e3, out) \<Rightarrow> (e0 @ e1 @ e2 @ e3, out)))))"

section \<open>The vocabulary of the specification\<close>

text \<open>The version the manifest declares, as the resolver's contract takes it: absent when
  the manifest cannot be read, or has no version, or an empty one.\<close>

definition manifestVersion :: "world \<Rightarrow> string \<Rightarrow> string option" where
  "manifestVersion w projectRoot =
     (case readJsonFile w (path_join w projectRoot ''package.json'') of
        Inl _ \<Rightarrow> None
      | Inr pkg \<Rightarrow> (if truthy (version pkg) then version pkg else None))"

text \<open>The source of the pattern \<^verbatim>\<open>^<appName>/<tagPrefix><rest>$\<close>.\<close>

definition tagPattern :: "string \<Rightarrow> string \<Rightarrow> string" where
  "tagPattern app pfx = ''^'' @ app @ ''/'' @ pfx @ ''(.*)$''"

text \<open>The first tag of a sequence that matches a pattern, and the text its capture group
  holds (empty when the group holds nothing).\<close>

definition firstMatch :: "regexp \<Rightarrow> string list \<Rightarrow> string option" where
  "firstMatch re tags = find (\<lambda>tag. re_exec re tag \<noteq> None) tags"

definition capturedRest :: "regexp \<Rightarrow> string \<Rightarrow> string" where
  "capturedRest re tag =
     (case re_exec re tag of
        None \<Rightarrow> []
      | Some groups \<Rightarrow> (case at_index groups 1 of Some (Some g) \<Rightarrow> g | _ \<Rightarrow> []))"

text \<open>The dot-separated segments of a version.\<close>

definition segments :: "string \<Rightarrow> string list" where
  "segments v = split_on (CHR ''.'') v"

text \<open>The tag set builder as the specification words it (section 4.2): the version, then
  with \<open>generateMajorMinor\<close> the compound when it differs from the version and the major
  when it differs from both, then the additional tags, then the revision tag.\<close>

definition buildTags_spec ::
  "string \<Rightarrow> string \<Rightarrow> string \<Rightarrow> string \<Rightarrow> string \<Rightarrow> bool \<Rightarrow> string list \<Rightarrow> string \<Rightarrow> string list"
  where
  "buildTags_spec repository app v minorCompound major genMajorMinor extra revisionShaShort =
     [repository @ ''/'' @ app @ '':'' @ v]
     @ (if genMajorMinor then
          (if minorCompound \<noteq> v then [repository @ ''/'' @ app @ '':'' @ minorCompound] else [])
          @ (if major \<noteq> v \<and> major \<noteq> minorCompound
             then [repository @ ''/'' @ app @ '':'' @ major] else [])
        else [])
     @ map (\<lambda>tag. repository @ ''/'' @ app @ '':'' @ tag) extra
     @ [repository @ ''/'' @ app @ '':sha-'' @ revisionShaShort]"

text \<open>The same, with the major tag left out when the major is empty.\<close>

definition buildTags_amended ::
  "string \<Rightarrow> string \<Rightarrow> string \<Rightarrow> string \<Rightarrow> string \<Rightarrow> bool \<Rightarrow> string list \<Rightarrow> string \<Rightarrow> string list"
  where
  "buildTags_amended repository app v minorCompound major genMajorMinor extra revisionShaShort =
     [repository @ ''/'' @ app @ '':'' @ v]
     @ (if genMajorMinor then
          (if minorCompound \<noteq> v then [repository @ ''/'' @ app @ '':'' @ minorCompound] else [])
          @ (if major \<noteq> [] \<and> major \<noteq> v \<and> major \<noteq> minorCompound
             then [repository @ ''/'' @ app @ '':'' @ major] else [])
        else [])
     @ map (\<lambda>tag. repository @ ''/'' @ app @ '':'' @ tag) extra
     @ [repository @ ''/'' @ app @ '':sha-'' @ revisionShaShort]"

text \<open>The container build invocation (section 6): the push flag when asked for, one flag
  for each tag, the Dockerfile, the build context and the two build arguments.\<close>

definition containerBuildInvocation ::
  "bool \<Rightarrow> string list \<Rightarrow> string \<Rightarrow> string \<Rightarrow> string \<Rightarrow> string \<Rightarrow> string" where
  "containerBuildInvocation pushFlag tags dockerfilePath contextPath v sha =
     ''docker buildx build''
     @ (if pushFlag then '' --push'' else [])
     @ concat (map (\<lambda>tag. '' -t '' @ dquote @ tag @ dquote) tags)
     @ '' -f '' @ dquote @ dockerfilePath @ dquote
     @ '' '' @ dquote @ contextPath @ dquote
     @ '' --build-arg APP_VERSION='' @ dquote @ v @ dquote
     @ '' --build-arg BUILD_SHA='' @ dquote @ sha @ dquote"

text \<open>The configured Dockerfile with its default, and the configured build context.\<close>

definition dockerfileOrDefault :: "schema \<Rightarrow> string" where
  "dockerfileOrDefault options =
     (case dockerfile options of
        None \<Rightarrow> ''Dockerfile''
      | Some d \<Rightarrow> (if d = [] then ''Dockerfile'' else d))"

definition configuredContext :: "schema \<Rightarrow> string option" where
  "configuredContext options =
     (case dockerContext options of
        None \<Rightarrow> None
      | Some c \<Rightarrow> (if c = [] then None else Some c))"

text \<open>Which effects are commands given to the shell.\<close>

fun is_Exec :: "effect \<Rightarrow> bool" where
  "is_Exec (Exec c) = True"
| "is_Exec _ = False"

section \<open>Collaborators for the examples\<close>

text \<open>\<^verbatim>\<open>path.join\<close> of two paths on POSIX: the non-empty arguments are joined by a slash
  and the result is normalised (empty and \<^verbatim>\<open>.\<close> segments dropped, \<^verbatim>\<open>..\<close> resolved
  against the segment before it).\<close>

fun normalizeSegments :: "bool \<Rightarrow> string list \<Rightarrow> string list \<Rightarrow> string list" where
  "normalizeSegments allowAboveRoot acc [] = rev acc"
| "normalizeSegments allowAboveRoot acc (s # ss) =
     (if s = [] \<or> s = ''.'' then normalizeSegments allowAboveRoot acc ss
      else if s = ''..'' then
        (case acc of
           [] \<Rightarrow> normalizeSegments allowAboveRoot (if allowAboveRoot then [''..''] else []) ss
         | t # ts \<Rightarrow>
             (if t = ''..'' then normalizeSegments allowAboveRoot (''..'' # acc) ss
              else normalizeSegments allowAboveRoot ts ss))
      else normalizeSegments allowAboveRoot (s # acc) ss)"

definition posix_normalize :: "string \<Rightarrow> string" where
  "posix_normalize p =
     (if p = [] then ''.''
      else
        (let isAbsolute = (hd p = CHR ''/'');
             trailingSeparator = (last p = CHR ''/'');
             q = join_with ''/'' (normalizeSegments (\<not> isAbsolute) [] (split_on (CHR ''/'') p))
         in if q = [] then (if isAbsolute then ''/'' else if trailingSeparator then ''./'' else ''.'')
            else (if isAbsolute then ''/'' else []) @ q @ (if trailingSeparator then ''/'' else [])))"

definition posix_join :: "string \<Rightarrow> string \<Rightarrow> string" where
  "posix_join a b =
     (if a = [] \<and> b = [] then ''.''
      else if a = [] then posix_normalize b
      else if b = [] then posix_normalize a
      else posix_normalize (a @ ''/'' @ b))"

text \<open>A regular-expression engine for the patterns the executor builds from an application
  name and a prefix without syntax characters: the literal text, then any characters but
  line terminators up to the end. It refuses every other source; the examples use none.\<close>

definition is_syntax_character :: "char \<Rightarrow> bool" where
  "is_syntax_character c =
     (c = CHR ''^'' \<or> c = CHR ''$'' \<or> c = CHR 0x5C \<or> c = CHR ''.'' \<or> c = CHR ''*'' \<or>
      c = CHR ''+'' \<or> c = CHR ''?'' \<or> c = CHR ''('' \<or> c = CHR '')'' \<or> c = CHR ''['' \<or>
      c = CHR '']'' \<or> c = CHR ''{'' \<or> c = CHR ''}'' \<or> c = CHR ''|'')"

definition is_line_terminator :: "char \<Rightarrow> bool" where
  "is_line_terminator c = (c = CHR 0x0A \<or> c = CHR 0x0D)"

definition literal_exec :: "string \<Rightarrow> string \<Rightarrow> string option list option" where
  "literal_exec lit s =
     (if prefix lit s \<and> \<not> list_ex is_line_terminator (drop (length lit) s)
      then Some [Some s, Some (drop (length lit) s)] else None)"

definition literal_RegExp :: "string \<Rightarrow> string + regexp" where
  "literal_RegExp src =
     (let lit = take (length src - 6) (drop 1 src) in
      if src = ''^'' @ lit @ ''(.*)$'' \<and> \<not> list_ex is_syntax_character lit
      then Inr \<lparr>re_exec = literal_exec lit,
                re_toString =
                  ''/'' @ concat (map (\<lambda>c. if c = CHR ''/'' then [CHR 0x5C, c] else [c]) src) @ ''/''\<rparr>
      else Inl ''SyntaxError: Invalid regular expression'')"

text \<open>The workspace and the options of the repository's tests.\<close>

definition test_context :: executorContext where
  "test_context =
     \<lparr>root = ''/test/root'',
      projects = [''test-app'' \<mapsto> \<lparr>project_root = ''apps/test-app''\<rparr>]\<rparr>"

definition test_options :: schema where
  "test_options =
     \<lparr>appName = ''test-app'', dockerRepository = ''test-repo'', buildTarget = ''build'',
      dockerfile = Some ''Dockerfile'', dockerContext = Some ''.'', push = Some False,
      additionalTags = None, generateMajorMinor = None, tagPrefix = None\<rparr>"

text \<open>A world given by what the manifest reader, the listing of the tags and the build
  target answer; the revision is \<^verbatim>\<open>abc1234\<close> followed by more digits and a line feed,
  and the container build succeeds silently.\<close>

definition test_world ::
  "(string + packageJson) \<Rightarrow> (string + string \<times> string) \<Rightarrow> (string + (string + bool) list) \<Rightarrow> world"
  where
  "test_world manifest tagListing buildResult =
     \<lparr>readJsonFile = (\<lambda>p. manifest),
      exec = (\<lambda>c. if c = git_tag_command then tagListing
                   else if c = git_rev_parse_command then Inr (''abc1234def0'' @ nl, [])
                   else Inr ([], [])),
      runExecutor = (\<lambda>project target configuration. buildResult),
      path_join = posix_join,
      new_RegExp = literal_RegExp\<rparr>"

text \<open>The project of the tests, a world whose manifest declares a version while a
  revision tag names another, a world whose manifest declares none, and the pattern
  compiled for the options of the tests.\<close>

definition test_project :: projectConfiguration where
  "test_project = \<lparr>project_root = ''apps/test-app''\<rparr>"

definition manifest_world :: "string \<Rightarrow> world" where
  "manifest_world v =
     test_world (Inr \<lparr>version = Some v\<rparr>) (Inr (''test-app/v9.9.9'', [])) (Inr [Inr True])"

definition tags_world :: "string \<Rightarrow> world" where
  "tags_world listing = test_world (Inr \<lparr>version = None\<rparr>) (Inr (listing, [])) (Inr [Inr True])"

definition test_pattern :: regexp where
  "test_pattern =
     \<lparr>re_exec = literal_exec ''test-app/v'',
      re_toString = ''/^test-app'' @ [CHR 0x5C] @ ''/v(.*)$/''\<rparr>"

text \<open>The pattern of the same application with the empty prefix.\<close>

definition bare_pattern :: regexp where
  "bare_pattern =
     \<lparr>re_exec = literal_exec ''test-app/'',
      re_toString = ''/^test-app'' @ [CHR 0x5C] @ ''/(.*)$/''\<rparr>"

section \<open>Properties of the embedding\<close>

subsection \<open>The fields derived from a version\<close>

lemma split_on_not_Nil: "split_on c s \<noteq> []"
  by (induction s) (auto split: list.splits)

lemma at_index_0: "xs \<noteq> [] \<Longrightarrow> at_index xs 0 = Some (hd xs)"
  by (cases xs) auto

lemma appVersion_setVersion: "appVersion (setVersion v) = Some v"
  by (simp add: setVersion_def Let_def)

lemma majorVersion_setVersion: "majorVersion (setVersion v) = Some (hd (segments v))"
  by (simp add: setVersion_def Let_def segments_def at_index_0 split_on_not_Nil)

lemma majorMinorVersion_setVersion:
  "majorMinorVersion (setVersion v) =
     Some (hd (segments v) @ ''.'' @ template (at_index (segments v) 1))"
  by (simp add: setVersion_def Let_def segments_def at_index_0 split_on_not_Nil template_def)

lemma setVersion_two_segments:
  "segments v = a # b # rest \<Longrightarrow> majorMinorVersion (setVersion v) = Some (a @ ''.'' @ b)"
  by (simp add: majorMinorVersion_setVersion template_def)

lemma setVersion_one_segment:
  "segments v = [a] \<Longrightarrow> majorMinorVersion (setVersion v) = Some (a @ ''.undefined'')"
  by (simp add: majorMinorVersion_setVersion template_def)

subsection \<open>The manifest\<close>

lemma manifestVersion_Some_nonempty: "manifestVersion w pr = Some V \<Longrightarrow> V \<noteq> []"
  by (auto simp: manifestVersion_def truthy_def split: sum.splits if_splits option.splits)

lemma readPackageJson_Some:
  "manifestVersion w pr = Some V \<Longrightarrow>
   readPackageJson w options pr =
     ([ReadJsonFile (path_join w pr ''package.json''), ConsoleLog (msg_found_version V)],
      setVersion V)"
  by (auto simp: manifestVersion_def readPackageJson_def Let_def template_def
      split: sum.splits if_splits)

lemma readPackageJson_None:
  "manifestVersion w pr = None \<Longrightarrow> snd (readPackageJson w options pr) = noVersion"
  by (auto simp: manifestVersion_def readPackageJson_def Let_def truthy_def
      split: sum.splits if_splits option.splits)

lemma readPackageJson_no_Exec: "Exec c \<notin> set (fst (readPackageJson w options pr))"
  by (auto simp: readPackageJson_def Let_def split: sum.splits)

lemma readPackageJson_no_RunExecutor: "RunExecutor p t c \<notin> set (fst (readPackageJson w options pr))"
  by (auto simp: readPackageJson_def Let_def split: sum.splits)

subsection \<open>Resolution\<close>

lemma deriveFromGitTags_skip:
  "truthy (appVersion vs) \<Longrightarrow> deriveFromGitTags w options vs = ([], Inr vs)"
  by (simp add: deriveFromGitTags_def)

lemma resolveVersion_manifest:
  "manifestVersion w pr = Some V \<Longrightarrow>
   resolveVersion w options pr =
     ([ReadJsonFile (path_join w pr ''package.json''), ConsoleLog (msg_found_version V)],
      Inr (V, setVersion V))"
  using manifestVersion_Some_nonempty[of w pr V]
  by (simp add: resolveVersion_def readPackageJson_Some deriveFromGitTags_skip
      appVersion_setVersion truthy_def template_def)

lemma deriveFromGitTags_Exec:
  "Exec c \<in> set (fst (deriveFromGitTags w options vs)) \<Longrightarrow> c = git_tag_command"
  by (auto simp: deriveFromGitTags_def Let_def split: sum.splits if_splits option.splits prod.splits)

lemma deriveFromGitTags_no_RunExecutor:
  "RunExecutor p t c \<notin> set (fst (deriveFromGitTags w options vs))"
  by (auto simp: deriveFromGitTags_def Let_def split: sum.splits if_splits option.splits prod.splits)

lemma capturedVersion_Some: "capturedVersion m = Some v \<Longrightarrow> v \<noteq> []"
  by (auto simp: capturedVersion_def split: option.splits if_splits)

lemma deriveFromGitTags_cases:
  "snd (deriveFromGitTags w options vs) = Inr vs \<or>
   snd (deriveFromGitTags w options vs) = Inl (Returned False) \<or>
   (\<exists>v. v \<noteq> [] \<and> snd (deriveFromGitTags w options vs) = Inr (setVersion v))"
  by (auto simp: deriveFromGitTags_def Let_def dest: capturedVersion_Some
      split: sum.split option.split prod.split)

lemma deriveFromGitTags_Inr:
  "deriveFromGitTags w options vs = (e, Inr vs') \<Longrightarrow> truthy (appVersion vs') \<Longrightarrow>
   \<not> truthy (appVersion vs) \<Longrightarrow> \<exists>v. vs' = setVersion v"
  using deriveFromGitTags_cases[of w options vs] by auto

lemma snd_resolveVersion:
  "snd (resolveVersion w options pr) =
     (case snd (deriveFromGitTags w options (snd (readPackageJson w options pr))) of
        Inl out \<Rightarrow> Inl out
      | Inr vs2 \<Rightarrow>
          (if truthy (appVersion vs2) then Inr (template (appVersion vs2), vs2)
           else Inl (Returned False)))"
  by (simp add: resolveVersion_def split: prod.split sum.split)

lemma fst_resolveVersion:
  "fst (resolveVersion w options pr) =
     fst (readPackageJson w options pr)
     @ fst (deriveFromGitTags w options (snd (readPackageJson w options pr)))
     @ (case snd (deriveFromGitTags w options (snd (readPackageJson w options pr))) of
          Inl out \<Rightarrow> []
        | Inr vs2 \<Rightarrow>
            (if truthy (appVersion vs2) then []
             else [ConsoleError (msg_no_version (appName options))]))"
  by (simp add: resolveVersion_def split: prod.split sum.split)

lemma resolveVersion_Exec:
  "Exec c \<in> set (fst (resolveVersion w options pr)) \<Longrightarrow> c = git_tag_command"
  using readPackageJson_no_Exec[of c w options pr]
        deriveFromGitTags_Exec[of c w options "snd (readPackageJson w options pr)"]
  by (auto simp: fst_resolveVersion split: sum.splits if_splits)

lemma resolveVersion_no_RunExecutor:
  "RunExecutor p t c \<notin> set (fst (resolveVersion w options pr))"
  using readPackageJson_no_RunExecutor[of p t c w options pr]
        deriveFromGitTags_no_RunExecutor[of p t c w options "snd (readPackageJson w options pr)"]
  by (auto simp: fst_resolveVersion split: sum.splits if_splits)

lemma readPackageJson_cases:
  "snd (readPackageJson w options pr) = noVersion \<or>
   (\<exists>v. v \<noteq> [] \<and> snd (readPackageJson w options pr) = setVersion v)"
  by (auto simp: readPackageJson_def Let_def truthy_def template_def split: sum.split option.split)

lemma truthy_noVersion: "\<not> truthy (appVersion noVersion)"
  by (simp add: noVersion_def truthy_def)

lemma resolveVersion_Inr:
  assumes "snd (resolveVersion w options pr) = Inr (v, vs)"
  shows "v \<noteq> [] \<and> vs = setVersion v"
proof -
  define vs1 where "vs1 = snd (readPackageJson w options pr)"
  from assms have t: "truthy (appVersion vs)" and v: "v = template (appVersion vs)"
    and d: "snd (deriveFromGitTags w options vs1) = Inr vs"
    by (auto simp: snd_resolveVersion vs1_def split: sum.splits if_splits)
  have "\<exists>u. u \<noteq> [] \<and> vs = setVersion u"
    using deriveFromGitTags_cases[of w options vs1] d t readPackageJson_cases[of w options pr]
    by (auto simp: vs1_def truthy_noVersion)
  then obtain u where "u \<noteq> []" "vs = setVersion u" by blast
  with v show ?thesis by (simp add: appVersion_setVersion template_def)
qed

subsection \<open>The results of the build target\<close>

lemma forAwait_no_Exec: "Exec c \<notin> set (fst (forAwait options rs))"
  by (induction options rs rule: forAwait.induct) (auto split: prod.splits)

lemma forAwait_failure:
  "\<forall>r\<in>set pre. r = Inr True \<Longrightarrow>
   snd (forAwait options (pre @ Inr False # post)) = Inl (Returned False)"
  by (induction pre) (auto split: prod.splits)

lemma forAwait_rejection:
  "\<forall>r\<in>set pre. r = Inr True \<Longrightarrow>
   snd (forAwait options (pre @ Inl err # post)) = Inl (Rejected err)"
  by (induction pre) (auto split: prod.splits)

lemma forAwait_completed:
  "snd (forAwait options rs) = Inr u \<Longrightarrow> \<forall>r\<in>set rs. r = Inr True"
  by (induction options rs rule: forAwait.induct) (auto split: prod.splits if_splits)

lemma forAwait_all_success:
  "\<forall>r\<in>set rs. r = Inr True \<Longrightarrow> snd (forAwait options rs) = Inr ()"
  by (induction rs) (auto split: prod.splits)

lemma fst_runBuild:
  "fst (runBuild w options) =
     [ConsoleLog (msg_running_build (buildTarget options) (appName options)),
      RunExecutor (appName options) (buildTarget options) ''production'']
     @ (case runExecutor w (appName options) (buildTarget options) ''production'' of
          Inl err \<Rightarrow> []
        | Inr buildResult \<Rightarrow> fst (forAwait options buildResult))"
  by (simp add: runBuild_def Let_def split: sum.split prod.split)

lemma snd_runBuild:
  "snd (runBuild w options) =
     (case runExecutor w (appName options) (buildTarget options) ''production'' of
        Inl err \<Rightarrow> Inl (Rejected err)
      | Inr buildResult \<Rightarrow> snd (forAwait options buildResult))"
  by (simp add: runBuild_def Let_def split: sum.split prod.split)

lemma runBuild_no_Exec: "Exec c \<notin> set (fst (runBuild w options))"
  by (simp add: fst_runBuild forAwait_no_Exec split: sum.split)

subsection \<open>The container build and the stages of the executor\<close>

lemma dockerBuild_Exec:
  "Exec c \<in> set (fst (dockerBuild w options ctx v vs)) \<Longrightarrow>
   c = git_rev_parse_command \<or>
   (\<exists>out err. exec w git_rev_parse_command = Inr (out, err) \<and>
      c = dockerCommand w options ctx
            (dockerTags options v (majorMinorVersion vs) (majorVersion vs) (shortSha out))
            v (shortSha out))"
  by (auto simp: dockerBuild_def Let_def split: sum.splits prod.splits if_splits)

lemma dockerBuild_runs_command:
  "exec w git_rev_parse_command = Inr (out, err) \<Longrightarrow>
   Exec (dockerCommand w options ctx
           (dockerTags options v (majorMinorVersion vs) (majorVersion vs) (shortSha out))
           v (shortSha out))
     \<in> set (fst (dockerBuild w options ctx v vs))"
  by (auto simp: dockerBuild_def Let_def split: sum.splits prod.splits)

lemma fst_tagAndBuild:
  "projects ctx (appName options) = Some pc \<Longrightarrow>
   fst (tagAndBuild w options ctx) =
     [ConsoleLog (msg_starting (appName options)), ConsoleLogOptions ''Executor Options'' options]
     @ fst (resolveVersion w options (project_root pc))
     @ (case snd (resolveVersion w options (project_root pc)) of
          Inl out \<Rightarrow> []
        | Inr (v, vs) \<Rightarrow>
            fst (runBuild w options)
            @ (case snd (runBuild w options) of
                 Inl out \<Rightarrow> []
               | Inr u \<Rightarrow> fst (dockerBuild w options ctx v vs)))"
  by (simp add: tagAndBuild_def Let_def split: prod.split sum.split)

lemma snd_tagAndBuild:
  "projects ctx (appName options) = Some pc \<Longrightarrow>
   snd (tagAndBuild w options ctx) =
     (case snd (resolveVersion w options (project_root pc)) of
        Inl out \<Rightarrow> out
      | Inr (v, vs) \<Rightarrow>
          (case snd (runBuild w options) of
             Inl out \<Rightarrow> out
           | Inr u \<Rightarrow> snd (dockerBuild w options ctx v vs)))"
  by (simp add: tagAndBuild_def Let_def split: prod.split sum.split)

lemma tagAndBuild_no_project:
  "projects ctx (appName options) = None \<Longrightarrow>
   tagAndBuild w options ctx =
     ([ConsoleLog (msg_starting (appName options)), ConsoleLogOptions ''Executor Options'' options,
       ConsoleError (msg_project_not_found (appName options))], Returned False)"
  by (simp add: tagAndBuild_def)

subsection \<open>Evaluating the examples\<close>

lemmas eval_defs = test_world_def test_options_def test_context_def resolveVersion_def
  readPackageJson_def deriveFromGitTags_def setVersion_def noVersion_def truthy_def template_def
  posix_join_def posix_normalize_def parseTags_def trim_def is_whitespace_def
  effectiveTagPrefix_def targetTagPattern_source_def capturedVersion_def literal_RegExp_def
  literal_exec_def is_syntax_character_def is_line_terminator_def git_tag_command_def
  git_rev_parse_command_def nl_def Let_def

lemmas run_defs = tagAndBuild_def runBuild_def dockerBuild_def dockerTags_def shortSha_def

lemma dockerCommand_prefix:
  "prefix ''docker buildx build'' (dockerCommand w options ctx tags v sha)"
  by (simp add: dockerCommand_def)

lemma tagAndBuild_Exec:
  assumes "Exec c \<in> set (fst (tagAndBuild w options ctx))"
  shows "c = git_tag_command \<or> c = git_rev_parse_command \<or>
         (\<exists>tags v sha. c = dockerCommand w options ctx tags v sha)"
proof (cases "projects ctx (appName options)")
  case None
  with assms show ?thesis by (simp add: tagAndBuild_no_project)
next
  case (Some pc)
  from assms show ?thesis
    unfolding fst_tagAndBuild[OF Some]
    using resolveVersion_Exec[of c w options "project_root pc"] runBuild_no_Exec[of c w options]
    by (auto split: sum.splits prod.splits dest!: dockerBuild_Exec)
qed

lemma dockerCommand_invocation:
  "dockerCommand w options ctx tags v sha =
     containerBuildInvocation (push options = Some True) tags
       (path_join w (root ctx) (dockerfileOrDefault options))
       (case configuredContext options of
          None \<Rightarrow> root ctx
        | Some c \<Rightarrow> path_join w (root ctx) c)
       v sha"
  by (simp add: dockerCommand_def containerBuildInvocation_def finalDockerfile_def
      finalContext_def dockerfileOrDefault_def configuredContext_def truthy_def template_def
      split: option.split)

subsection \<open>The pattern and the first match\<close>

lemma targetTagPattern_source_eq:
  "targetTagPattern_source options =
     ''^'' @ appName options @ ''/'' @
     (case tagPrefix options of None \<Rightarrow> ''v'' | Some p \<Rightarrow> (if p = [] then ''v'' else p)) @ ''(.*)$''"
  by (simp add: targetTagPattern_source_def effectiveTagPrefix_def truthy_def template_def
      split: option.split)

lemma firstMatch_Some:
  "firstMatch re tags = Some tag \<longleftrightarrow>
     (\<exists>before after. tags = before @ tag # after \<and> re_exec re tag \<noteq> None \<and>
        (\<forall>t\<in>set before. re_exec re t = None))"
proof
  assume "firstMatch re tags = Some tag"
  then obtain i where i: "i < length tags" "re_exec re (tags ! i) \<noteq> None" "tag = tags ! i"
    "\<forall>j<i. re_exec re (tags ! j) = None"
    unfolding firstMatch_def find_Some_iff by auto
  have "tags = take i tags @ tag # drop (Suc i) tags"
    using i(1,3) by (simp add: id_take_nth_drop)
  moreover have "\<forall>t\<in>set (take i tags). re_exec re t = None"
    using i(1,4) by (auto simp: in_set_conv_nth)
  ultimately show "\<exists>before after. tags = before @ tag # after \<and> re_exec re tag \<noteq> None \<and>
        (\<forall>t\<in>set before. re_exec re t = None)"
    using i(2,3) by blast
next
  assume "\<exists>before after. tags = before @ tag # after \<and> re_exec re tag \<noteq> None \<and>
        (\<forall>t\<in>set before. re_exec re t = None)"
  then obtain before after where t: "tags = before @ tag # after" and m: "re_exec re tag \<noteq> None"
    and n: "\<forall>t\<in>set before. re_exec re t = None" by blast
  have "find (\<lambda>t. re_exec re t \<noteq> None) (before @ tag # after) = Some tag"
    using m n by (induction before) auto
  then show "firstMatch re tags = Some tag"
    by (simp add: firstMatch_def t)
qed

lemma firstMatch_None:
  "firstMatch re tags = None \<longleftrightarrow> (\<forall>t\<in>set tags. re_exec re t = None)"
  by (auto simp: firstMatch_def find_None_iff)

lemma find_filter_nonempty:
  "find P (filter (\<lambda>t. t \<noteq> []) xs) = Some t \<Longrightarrow> t \<noteq> []"
  by (induction xs) (auto split: if_splits)

lemma firstMatch_parseTags_truthy:
  "firstMatch re (parseTags out) = Some tag \<Longrightarrow> truthy (Some tag)"
  unfolding firstMatch_def parseTags_def truthy_def
  by (auto dest: find_filter_nonempty)

lemma capturedVersion_capturedRest:
  "capturedVersion (re_exec re tag) =
     (if capturedRest re tag = [] then None else Some (capturedRest re tag))"
  by (auto simp: capturedVersion_def capturedRest_def split: option.splits)

lemma deriveFromGitTags_match:
  assumes "\<not> truthy (appVersion vs)"
    and "exec w git_tag_command = Inr (out, err)"
    and "new_RegExp w (targetTagPattern_source options) = Inr re"
    and "firstMatch re (parseTags out) = Some tag"
  shows "snd (deriveFromGitTags w options vs) =
           (if capturedRest re tag = [] then Inl (Returned False)
            else Inr (setVersion (capturedRest re tag)))"
  using assms firstMatch_parseTags_truthy[OF assms(4)]
  by (simp add: deriveFromGitTags_def Let_def firstMatch_def capturedVersion_capturedRest
      template_def)

lemma deriveFromGitTags_no_match:
  assumes "\<not> truthy (appVersion vs)"
    and "exec w git_tag_command = Inr (out, err)"
    and "new_RegExp w (targetTagPattern_source options) = Inr re"
    and "firstMatch re (parseTags out) = None"
  shows "snd (deriveFromGitTags w options vs) = Inr vs"
  using assms by (simp add: deriveFromGitTags_def Let_def firstMatch_def truthy_def)

lemma deriveFromGitTags_listing_fails:
  assumes "\<not> truthy (appVersion vs)" and "exec w git_tag_command = Inl err"
  shows "deriveFromGitTags w options vs =
           ([ConsoleLog msg_attempting, Exec git_tag_command,
             ConsoleError (msg_error_reading_tags (appName options) err)],
            Inl (Returned False))"
  using assms by (simp add: deriveFromGitTags_def)

lemma deriveFromGitTags_asks_git:
  "\<not> truthy (appVersion vs) \<Longrightarrow>
   filter is_Exec (fst (deriveFromGitTags w options vs)) = [Exec git_tag_command]"
  by (simp add: deriveFromGitTags_def Let_def split: sum.split prod.split option.split)

lemma readPackageJson_filter_Exec: "filter is_Exec (fst (readPackageJson w options pr)) = []"
  by (simp add: readPackageJson_def Let_def split: sum.split)

subsection \<open>The tags\<close>

lemma dockerTags_amended:
  assumes "mm \<noteq> []"
  shows "dockerTags options v (Some mm) (Some mj) sha =
         buildTags_amended (dockerRepository options) (appName options) v mm mj
           (generateMajorMinor options = Some True)
           (case additionalTags options of None \<Rightarrow> [] | Some ts \<Rightarrow> ts) sha"
  using assms
  by (simp add: dockerTags_def buildTags_amended_def truthy_def template_def Let_def
      split: option.split)

lemma runBuild_completed:
  "snd (runBuild w options) = Inr u \<Longrightarrow>
   \<exists>results. runExecutor w (appName options) (buildTarget options) ''production'' = Inr results \<and>
     (\<forall>r\<in>set results. r = Inr True)"
  by (auto simp: snd_runBuild split: sum.splits dest: forAwait_completed)

subsection \<open>A world whose manifest reader is replaced\<close>

lemma world_without_manifest:
  "exec (w\<lparr>readJsonFile := f\<rparr>) = exec w"
  "runExecutor (w\<lparr>readJsonFile := f\<rparr>) = runExecutor w"
  "path_join (w\<lparr>readJsonFile := f\<rparr>) = path_join w"
  "new_RegExp (w\<lparr>readJsonFile := f\<rparr>) = new_RegExp w"
  by simp_all

lemma deriveFromGitTags_world:
  "deriveFromGitTags (w\<lparr>readJsonFile := f\<rparr>) options vs = deriveFromGitTags w options vs"
  by (simp add: deriveFromGitTags_def split: sum.split prod.split)

lemma runBuild_world: "runBuild (w\<lparr>readJsonFile := f\<rparr>) options = runBuild w options"
  by (simp add: runBuild_def)

lemma dockerBuild_world:
  "dockerBuild (w\<lparr>readJsonFile := f\<rparr>) options ctx v vs = dockerBuild w options ctx v vs"
  by (simp add: dockerBuild_def dockerCommand_def finalDockerfile_def finalContext_def
      split: sum.split prod.split)

lemma readPackageJson_read_fails:
  "readJsonFile w (path_join w pr ''package.json'') = Inl readError \<Longrightarrow>
   readPackageJson w options pr =
     ([ReadJsonFile (path_join w pr ''package.json''),
       ConsoleWarn (msg_could_not_read (appName options) (path_join w pr ''package.json'') readError)],
      noVersion)"
  by (simp add: readPackageJson_def Let_def)

lemma resolveVersion_without_manifest:
  "manifestVersion w pr = None \<Longrightarrow>
   snd (resolveVersion w options pr) =
     snd (resolveVersion (w\<lparr>readJsonFile := (\<lambda>p. Inr \<lparr>version = None\<rparr>)\<rparr>) options pr)"
  by (simp add: snd_resolveVersion readPackageJson_None deriveFromGitTags_world
      manifestVersion_def truthy_def)

lemma filter_Exec_resolveVersion:
  "manifestVersion w pr = None \<Longrightarrow>
   filter is_Exec (fst (resolveVersion w options pr)) = [Exec git_tag_command]"
  by (simp add: fst_resolveVersion readPackageJson_filter_Exec readPackageJson_None
      deriveFromGitTags_asks_git truthy_noVersion split: sum.split)

lemma snd_tagAndBuild_without_manifest:
  assumes "projects ctx (appName options) = Some pc"
    and "manifestVersion w (project_root pc) = None"
  shows "snd (tagAndBuild w options ctx) =
         snd (tagAndBuild (w\<lparr>readJsonFile := (\<lambda>p. Inr \<lparr>version = None\<rparr>)\<rparr>) options ctx)"
  by (simp add: snd_tagAndBuild[OF assms(1)] resolveVersion_without_manifest[OF assms(2), symmetric]
      runBuild_world dockerBuild_world split: sum.split prod.split)

lemma resolution_fails:
  assumes "projects ctx (appName options) = Some pc"
    and "manifestVersion w (project_root pc) = None"
    and "snd (resolveVersion w options (project_root pc)) = Inl (Returned False)"
  shows "snd (tagAndBuild w options ctx) = Returned False \<and>
         filter is_Exec (fst (tagAndBuild w options ctx)) = [Exec git_tag_command] \<and>
         (\<forall>p t c. RunExecutor p t c \<notin> set (fst (tagAndBuild w options ctx)))"
  using assms(3) resolveVersion_no_RunExecutor[of _ _ _ w options "project_root pc"]
  by (simp add: snd_tagAndBuild[OF assms(1)] fst_tagAndBuild[OF assms(1)]
      filter_Exec_resolveVersion[OF assms(2)])

subsection \<open>The examples\<close>

lemmas fixture_defs = test_project_def manifest_world_def tags_world_def test_pattern_def
  bare_pattern_def
  tagPattern_def firstMatch_def capturedRest_def manifestVersion_def

lemma test_project_found: "projects test_context (appName test_options) = Some test_project"
  by (simp add: test_context_def test_options_def test_project_def)

lemma test_pattern_compiles:
  "new_RegExp (tags_world listing)
     (tagPattern (appName test_options)
        (case tagPrefix test_options of None \<Rightarrow> ''v'' | Some p \<Rightarrow> (if p = [] then ''v'' else p)))
   = Inr test_pattern"
  by (simp add: eval_defs fixture_defs)

lemma manifest_world_version:
  "v \<noteq> [] \<Longrightarrow> manifestVersion (manifest_world v) ''apps/test-app'' = Some v"
  by (simp add: eval_defs fixture_defs)

lemma test_world_revision:
  "exec (test_world m t b) git_rev_parse_command = Inr (''abc1234def0'' @ nl, [])"
  by (simp add: test_world_def git_tag_command_def git_rev_parse_command_def)

section \<open>The claims of the specification\<close>

subsection \<open>C1: the manifest version and its derived fields\<close>

text \<open>
  Claim C1. For every non-empty version the manifest declares, resolution returns that
  version whatever the revision tags are, the major is its first dot-separated segment and
  the compound is its first two segments.

  The first two parts hold (\<open>resolveVersion_manifest\<close>, \<open>majorVersion_setVersion\<close>), and so
  does the third for a version of two segments or more (\<open>setVersion_two_segments\<close>). For a
  version of one segment the destructuring of line 47 leaves \<^verbatim>\<open>minor\<close> undefined and the
  template of line 48 renders it by name (\<open>setVersion_one_segment\<close>): the manifest version
  \<^verbatim>\<open>5\<close> resolves with the compound \<^verbatim>\<open>5.undefined\<close>, which is made of no segments of
  the version. The theorem evaluates the resolver there, in a world where a revision tag
  names another version.
\<close>

theorem manifest_version_5_compound_undefined:
  "segments ''5'' = [''5''] \<and>
   snd (resolveVersion (manifest_world ''5'') test_options ''apps/test-app'')
   = Inr (''5'', \<lparr>appVersion = Some ''5'', majorMinorVersion = Some ''5.undefined'',
                   majorVersion = Some ''5''\<rparr>)"
  by (simp add: eval_defs manifest_world_def segments_def)

subsection \<open>C2: the first matching revision tag\<close>

text \<open>
  Claim C2, as amended. When the manifest declares no version (it cannot be read, or has
  none, or an empty one), the tags are listed and the pattern
  \<^verbatim>\<open>^<appName>/<tagPrefix>(.*)$\<close> is compiled, with the prefix \<^verbatim>\<open>v\<close> when none is
  configured or the configured one is empty. The first tag of the listing that matches
  decides alone: when its capture group holds a non-empty text, that text is the resolved
  version (with the fields derived from it); when it holds nothing, resolution ends the
  executor with a failure, and no later tag is looked at.
\<close>

theorem first_matching_tag_decides:
  assumes "manifestVersion w projectRoot = None"
    and "exec w git_tag_command = Inr (gitTagsOutput, err)"
    and "new_RegExp w
           (tagPattern (appName options)
              (case tagPrefix options of None \<Rightarrow> ''v'' | Some p \<Rightarrow> (if p = [] then ''v'' else p)))
         = Inr re"
    and "firstMatch re (parseTags gitTagsOutput) = Some tag"
  shows "(capturedRest re tag \<noteq> [] \<longrightarrow>
            snd (resolveVersion w options projectRoot) =
              Inr (capturedRest re tag, setVersion (capturedRest re tag))) \<and>
         (capturedRest re tag = [] \<longrightarrow>
            snd (resolveVersion w options projectRoot) = Inl (Returned False))"
proof -
  have nv: "snd (readPackageJson w options projectRoot) = noVersion"
    using assms(1) by (rule readPackageJson_None)
  have re: "new_RegExp w (targetTagPattern_source options) = Inr re"
    using assms(3) by (simp add: targetTagPattern_source_eq tagPattern_def)
  have "snd (deriveFromGitTags w options noVersion) =
          (if capturedRest re tag = [] then Inl (Returned False)
           else Inr (setVersion (capturedRest re tag)))"
    using truthy_noVersion assms(2) re assms(4) by (rule deriveFromGitTags_match)
  then show ?thesis
    by (simp add: snd_resolveVersion nv appVersion_setVersion truthy_def template_def)
qed

text \<open>
  The listing of the repository's test, where the first tag matches and gives \<^verbatim>\<open>1.2.3\<close>,
  and a listing whose only tag is the bare prefix.
\<close>

theorem first_matching_tag_decides_witness:
  "firstMatch test_pattern (parseTags (''test-app/v1.2.3'' @ nl @ ''other-tag'')) = Some ''test-app/v1.2.3'' \<and>
   snd (resolveVersion (tags_world (''test-app/v1.2.3'' @ nl @ ''other-tag'')) test_options ''apps/test-app'')
     = Inr (''1.2.3'', setVersion ''1.2.3'') \<and>
   firstMatch test_pattern (parseTags ''test-app/v'') = Some ''test-app/v'' \<and>
   snd (resolveVersion (tags_world ''test-app/v'') test_options ''apps/test-app'')
     = Inl (Returned False)"
proof -
  have m: "manifestVersion (tags_world listing) ''apps/test-app'' = None" for listing
    by (simp add: eval_defs fixture_defs)
  have e: "exec (tags_world listing) git_tag_command = Inr (listing, [])" for listing
    by (simp add: tags_world_def test_world_def)
  have f1: "firstMatch test_pattern (parseTags (''test-app/v1.2.3'' @ nl @ ''other-tag'')) = Some ''test-app/v1.2.3''"
    by (simp add: eval_defs fixture_defs)
  have c1: "capturedRest test_pattern ''test-app/v1.2.3'' = ''1.2.3''"
    by (simp add: eval_defs fixture_defs)
  have f2: "firstMatch test_pattern (parseTags ''test-app/v'') = Some ''test-app/v''"
    by (simp add: eval_defs fixture_defs)
  have c2: "capturedRest test_pattern ''test-app/v'' = []"
    by (simp add: eval_defs fixture_defs)
  from first_matching_tag_decides[OF m e test_pattern_compiles f1] c1
  have r1: "snd (resolveVersion (tags_world (''test-app/v1.2.3'' @ nl @ ''other-tag'')) test_options ''apps/test-app'')
     = Inr (''1.2.3'', setVersion ''1.2.3'')" by simp
  from first_matching_tag_decides[OF m e test_pattern_compiles f2] c2
  have r2: "snd (resolveVersion (tags_world ''test-app/v'') test_options ''apps/test-app'')
     = Inl (Returned False)" by simp
  from f1 r1 f2 r2 show ?thesis by simp
qed

text \<open>
  The claim as it was stated fails in two places. The listing \<^verbatim>\<open>test-app/v\<close>,
  \<^verbatim>\<open>test-app/v1.2.3\<close> contains matches and the first one captures the empty text: it does
  not become the resolved version, resolution fails although the second tag carries a
  version. And a prefix configured as the empty string is replaced by \<^verbatim>\<open>v\<close>: the tag
  \<^verbatim>\<open>test-app/1.2.3\<close> matches the pattern of the empty prefix with the capture \<^verbatim>\<open>1.2.3\<close>,
  yet resolution fails.
\<close>

theorem empty_capture_fails_resolution:
  "firstMatch test_pattern (parseTags (''test-app/v'' @ nl @ ''test-app/v1.2.3'')) = Some ''test-app/v'' \<and>
   capturedRest test_pattern ''test-app/v'' = [] \<and>
   snd (resolveVersion (tags_world (''test-app/v'' @ nl @ ''test-app/v1.2.3'')) test_options ''apps/test-app'')
     = Inl (Returned False) \<and>
   literal_RegExp (tagPattern ''test-app'' []) = Inr bare_pattern \<and>
   firstMatch bare_pattern (parseTags ''test-app/1.2.3'') = Some ''test-app/1.2.3'' \<and>
   capturedRest bare_pattern ''test-app/1.2.3'' = ''1.2.3'' \<and>
   snd (resolveVersion (tags_world ''test-app/1.2.3'') (test_options\<lparr>tagPrefix := Some []\<rparr>) ''apps/test-app'')
     = Inl (Returned False)"
  by (simp add: eval_defs fixture_defs)

subsection \<open>C3: the tag list\<close>

text \<open>
  Claim C3, as amended. For every version the resolver returns, with the fields it
  derives, the tags are in this order: the version; then, only with
  \<^verbatim>\<open>generateMajorMinor\<close>, the compound when it differs from the version, and the major when
  it is not empty and differs from both; then one tag for each additional tag in the order
  given, duplicates kept; then \<^verbatim>\<open>sha-\<close> and the first seven characters of the trimmed
  revision identifier. When the build target succeeds, the container build is invoked with
  exactly this list. (The list is stated in terms of the fields; what the compound is for a
  version of one segment is the matter of C1.)
\<close>

theorem tags_of_resolved_version:
  assumes "projects ctx (appName options) = Some pc"
    and "snd (resolveVersion w options (project_root pc)) = Inr (v, vs)"
    and "exec w git_rev_parse_command = Inr (gitShaOutput, err)"
  shows "dockerTags options v (majorMinorVersion vs) (majorVersion vs) (shortSha gitShaOutput) =
           buildTags_amended (dockerRepository options) (appName options) v
             (template (majorMinorVersion vs)) (template (majorVersion vs))
             (generateMajorMinor options = Some True)
             (case additionalTags options of None \<Rightarrow> [] | Some ts \<Rightarrow> ts)
             (take 7 (trim gitShaOutput)) \<and>
         (snd (runBuild w options) = Inr () \<longrightarrow>
            Exec (dockerCommand w options ctx
                    (buildTags_amended (dockerRepository options) (appName options) v
                       (template (majorMinorVersion vs)) (template (majorVersion vs))
                       (generateMajorMinor options = Some True)
                       (case additionalTags options of None \<Rightarrow> [] | Some ts \<Rightarrow> ts)
                       (take 7 (trim gitShaOutput)))
                    v (take 7 (trim gitShaOutput)))
              \<in> set (fst (tagAndBuild w options ctx)))"
proof -
  from assms(2) have vs: "vs = setVersion v" by (simp add: resolveVersion_Inr)
  have mm: "majorMinorVersion vs = Some (hd (segments v) @ ''.'' @ template (at_index (segments v) 1))"
    by (simp add: vs majorMinorVersion_setVersion)
  have mj: "majorVersion vs = Some (hd (segments v))"
    by (simp add: vs majorVersion_setVersion)
  have eq: "dockerTags options v (majorMinorVersion vs) (majorVersion vs) (shortSha gitShaOutput) =
           buildTags_amended (dockerRepository options) (appName options) v
             (template (majorMinorVersion vs)) (template (majorVersion vs))
             (generateMajorMinor options = Some True)
             (case additionalTags options of None \<Rightarrow> [] | Some ts \<Rightarrow> ts)
             (take 7 (trim gitShaOutput))"
    unfolding mm mj by (simp add: dockerTags_amended template_def shortSha_def)
  have "Exec (dockerCommand w options ctx
           (dockerTags options v (majorMinorVersion vs) (majorVersion vs) (shortSha gitShaOutput))
           v (shortSha gitShaOutput))
         \<in> set (fst (tagAndBuild w options ctx))"
    if "snd (runBuild w options) = Inr ()"
    using that assms(2) dockerBuild_runs_command[OF assms(3), of options ctx v vs]
    by (simp add: fst_tagAndBuild[OF assms(1)])
  with eq show ?thesis by (simp add: shortSha_def)
qed

text \<open>
  The example of the claim: version \<^verbatim>\<open>1.2.3\<close>, \<^verbatim>\<open>generateMajorMinor\<close>, the additional
  tag \<^verbatim>\<open>latest\<close>.
\<close>

theorem tags_of_resolved_version_witness:
  "snd (resolveVersion (manifest_world ''1.2.3'')
          (test_options\<lparr>generateMajorMinor := Some True, additionalTags := Some [''latest'']\<rparr>)
          ''apps/test-app'')
     = Inr (''1.2.3'', setVersion ''1.2.3'') \<and>
   dockerTags (test_options\<lparr>generateMajorMinor := Some True, additionalTags := Some [''latest'']\<rparr>)
      ''1.2.3'' (majorMinorVersion (setVersion ''1.2.3'')) (majorVersion (setVersion ''1.2.3''))
      (shortSha (''abc1234def0'' @ nl))
     = [''test-repo/test-app:1.2.3'', ''test-repo/test-app:1.2'', ''test-repo/test-app:1'',
        ''test-repo/test-app:latest'', ''test-repo/test-app:sha-abc1234''] \<and>
   Exec (dockerCommand (manifest_world ''1.2.3'')
           (test_options\<lparr>generateMajorMinor := Some True, additionalTags := Some [''latest'']\<rparr>)
           test_context
           [''test-repo/test-app:1.2.3'', ''test-repo/test-app:1.2'', ''test-repo/test-app:1'',
            ''test-repo/test-app:latest'', ''test-repo/test-app:sha-abc1234'']
           ''1.2.3'' ''abc1234'')
     \<in> set (fst (tagAndBuild (manifest_world ''1.2.3'')
                   (test_options\<lparr>generateMajorMinor := Some True, additionalTags := Some [''latest'']\<rparr>)
                   test_context))"
proof -
  let ?o = "test_options\<lparr>generateMajorMinor := Some True, additionalTags := Some [''latest'']\<rparr>"
  let ?w = "manifest_world ''1.2.3''"
  have p: "projects test_context (appName ?o) = Some test_project"
    by (simp add: test_context_def test_options_def test_project_def)
  have r: "snd (resolveVersion ?w ?o (project_root test_project)) = Inr (''1.2.3'', setVersion ''1.2.3'')"
    by (simp add: resolveVersion_manifest manifest_world_version test_project_def)
  have e: "exec ?w git_rev_parse_command = Inr (''abc1234def0'' @ nl, [])"
    by (simp add: manifest_world_def test_world_revision)
  have b: "snd (runBuild ?w ?o) = Inr ()"
    by (simp add: snd_runBuild manifest_world_def test_world_def)
  have s: "take 7 (trim (''abc1234def0'' @ nl)) = ''abc1234''"
    by (simp add: trim_def is_whitespace_def nl_def)
  have t: "buildTags_amended (dockerRepository ?o) (appName ?o) ''1.2.3''
             (template (majorMinorVersion (setVersion ''1.2.3'')))
             (template (majorVersion (setVersion ''1.2.3'')))
             (generateMajorMinor ?o = Some True)
             (case additionalTags ?o of None \<Rightarrow> [] | Some ts \<Rightarrow> ts) ''abc1234''
           = [''test-repo/test-app:1.2.3'', ''test-repo/test-app:1.2'', ''test-repo/test-app:1'',
              ''test-repo/test-app:latest'', ''test-repo/test-app:sha-abc1234'']"
    by (simp add: buildTags_amended_def test_options_def setVersion_def template_def)
  from tags_of_resolved_version[OF p r e] b r show ?thesis
    unfolding s t by (simp add: test_project_def)
qed

text \<open>
  The claim as it was stated fails for a version that starts with a dot. The manifest
  version \<^verbatim>\<open>.5.1\<close> resolves with the compound \<^verbatim>\<open>.5\<close> and the empty major; the major
  differs from the version and from the compound, so the specification's builder adds a
  tag with an empty label, and the executor, which tests the major for truthiness
  (line 154), adds none.
\<close>

theorem empty_major_gets_no_tag:
  "snd (resolveVersion (manifest_world ''.5.1'') (test_options\<lparr>generateMajorMinor := Some True\<rparr>)
          ''apps/test-app'')
     = Inr (''.5.1'', \<lparr>appVersion = Some ''.5.1'', majorMinorVersion = Some ''.5'',
                      majorVersion = Some []\<rparr>) \<and>
   dockerTags (test_options\<lparr>generateMajorMinor := Some True\<rparr>) ''.5.1'' (Some ''.5'') (Some [])
      ''abc1234''
     = [''test-repo/test-app:.5.1'', ''test-repo/test-app:.5'', ''test-repo/test-app:sha-abc1234''] \<and>
   buildTags_spec ''test-repo'' ''test-app'' ''.5.1'' ''.5'' [] True [] ''abc1234''
     = [''test-repo/test-app:.5.1'', ''test-repo/test-app:.5'', ''test-repo/test-app:'',
        ''test-repo/test-app:sha-abc1234''] \<and>
   dockerTags (test_options\<lparr>generateMajorMinor := Some True\<rparr>) ''.5.1'' (Some ''.5'') (Some [])
      ''abc1234''
     \<noteq> buildTags_spec ''test-repo'' ''test-app'' ''.5.1'' ''.5'' [] True [] ''abc1234''"
  by (simp add: eval_defs fixture_defs run_defs buildTags_spec_def)

subsection \<open>C4: a version of one segment\<close>

text \<open>
  Claim C4. For a version whose major and compound coincide with it, such as \<^verbatim>\<open>5\<close>,
  \<^verbatim>\<open>generateMajorMinor\<close> adds no tag to the version's own.

  The guard \<^verbatim>\<open>majorVersion !== appVersion\<close> of line 155 can only fail for a version of one
  segment, so the executor means to handle it; but for such a version the compound is
  \<^verbatim>\<open>5.undefined\<close> (see C1), it differs from the version, and a tag is pushed for it. The
  theorem evaluates the executor on the manifest version \<^verbatim>\<open>5\<close>: the container build is
  invoked with three tags, the second one labelled \<^verbatim>\<open>5.undefined\<close>. No label is repeated,
  but a tag beyond the version's own is added.
\<close>

theorem version_5_tags_include_undefined:
  "Exec (dockerCommand (manifest_world ''5'')
           (test_options\<lparr>generateMajorMinor := Some True\<rparr>) test_context
           [''test-repo/test-app:5'', ''test-repo/test-app:5.undefined'',
            ''test-repo/test-app:sha-abc1234'']
           ''5'' ''abc1234'')
     \<in> set (fst (tagAndBuild (manifest_world ''5'')
                   (test_options\<lparr>generateMajorMinor := Some True\<rparr>) test_context))"
  by (simp add: eval_defs run_defs manifest_world_def)

subsection \<open>C5: the Dockerfile and the build context\<close>

text \<open>
  Claim C5, as amended. Every container build the executor invokes is given the
  Dockerfile (by default \<^verbatim>\<open>Dockerfile\<close>) joined to the root of the workspace,
  \<^verbatim>\<open>context.root\<close>, and the build context joined to the root of the workspace, or that
  root itself when no context is configured. The root of the project plays no part.
\<close>

theorem container_build_paths_from_workspace_root:
  assumes "Exec cmd \<in> set (fst (tagAndBuild w options ctx))"
    and "cmd \<noteq> git_tag_command" and "cmd \<noteq> git_rev_parse_command"
  shows "\<exists>tags v sha.
           cmd = containerBuildInvocation (push options = Some True) tags
                   (path_join w (root ctx) (dockerfileOrDefault options))
                   (case configuredContext options of
                      None \<Rightarrow> root ctx
                    | Some c \<Rightarrow> path_join w (root ctx) c)
                   v sha"
  using tagAndBuild_Exec[OF assms(1)] assms(2,3) dockerCommand_invocation by metis

text \<open>
  The test \<^verbatim>\<open>should use custom dockerfile and context paths\<close> of the repository.
\<close>

theorem container_build_paths_from_workspace_root_witness:
  "Exec (dockerCommand (manifest_world ''1.2.3'')
           (test_options\<lparr>dockerfile := Some ''docker/Dockerfile.prod'',
                          dockerContext := Some ''apps/test-app''\<rparr>)
           test_context
           [''test-repo/test-app:1.2.3'', ''test-repo/test-app:sha-abc1234''] ''1.2.3'' ''abc1234'')
     \<in> set (fst (tagAndBuild (manifest_world ''1.2.3'')
                   (test_options\<lparr>dockerfile := Some ''docker/Dockerfile.prod'',
                                  dockerContext := Some ''apps/test-app''\<rparr>)
                   test_context)) \<and>
   (\<exists>tags v sha.
      dockerCommand (manifest_world ''1.2.3'')
        (test_options\<lparr>dockerfile := Some ''docker/Dockerfile.prod'',
                       dockerContext := Some ''apps/test-app''\<rparr>)
        test_context
        [''test-repo/test-app:1.2.3'', ''test-repo/test-app:sha-abc1234''] ''1.2.3'' ''abc1234''
      = containerBuildInvocation False tags ''/test/root/docker/Dockerfile.prod''
          ''/test/root/apps/test-app'' v sha)"
proof -
  let ?o = "test_options\<lparr>dockerfile := Some ''docker/Dockerfile.prod'',
                          dockerContext := Some ''apps/test-app''\<rparr>"
  let ?w = "manifest_world ''1.2.3''"
  let ?c = "dockerCommand ?w ?o test_context
              [''test-repo/test-app:1.2.3'', ''test-repo/test-app:sha-abc1234''] ''1.2.3'' ''abc1234''"
  have h1: "Exec ?c \<in> set (fst (tagAndBuild ?w ?o test_context))"
    by (simp add: eval_defs fixture_defs run_defs)
  have h2: "?c \<noteq> git_tag_command"
    by (simp add: dockerCommand_def git_tag_command_def)
  have h3: "?c \<noteq> git_rev_parse_command"
    by (simp add: dockerCommand_def git_rev_parse_command_def)
  have p1: "path_join ?w (root test_context) (dockerfileOrDefault ?o) = ''/test/root/docker/Dockerfile.prod''"
    by (simp add: eval_defs fixture_defs dockerfileOrDefault_def)
  have p2: "(case configuredContext ?o of None \<Rightarrow> root test_context
             | Some c \<Rightarrow> path_join ?w (root test_context) c) = ''/test/root/apps/test-app''"
    by (simp add: eval_defs fixture_defs configuredContext_def)
  have p3: "(push ?o = Some True) = False"
    by (simp add: test_options_def)
  from container_build_paths_from_workspace_root[OF h1 h2 h3] h1 show ?thesis
    unfolding p1 p2 p3 by simp
qed

text \<open>
  The claim as it was stated fails on that test. The project's root is
  \<^verbatim>\<open>apps/test-app\<close>; the Dockerfile and the build context the container build gets are
  \<^verbatim>\<open>/test/root/docker/Dockerfile.prod\<close> and \<^verbatim>\<open>/test/root/apps/test-app\<close>, as the test
  expects, and they are not the paths joined to the project's root, whether that root is
  taken as it is or joined to the workspace root first.
\<close>

theorem paths_not_relative_to_project_root:
  "finalDockerfile (manifest_world ''1.2.3'')
     (test_options\<lparr>dockerfile := Some ''docker/Dockerfile.prod'',
                    dockerContext := Some ''apps/test-app''\<rparr>) test_context
     = ''/test/root/docker/Dockerfile.prod'' \<and>
   finalContext (manifest_world ''1.2.3'')
     (test_options\<lparr>dockerfile := Some ''docker/Dockerfile.prod'',
                    dockerContext := Some ''apps/test-app''\<rparr>) test_context
     = ''/test/root/apps/test-app'' \<and>
   Exec (containerBuildInvocation False
           [''test-repo/test-app:1.2.3'', ''test-repo/test-app:sha-abc1234'']
           ''/test/root/docker/Dockerfile.prod'' ''/test/root/apps/test-app'' ''1.2.3'' ''abc1234'')
     \<in> set (fst (tagAndBuild (manifest_world ''1.2.3'')
                   (test_options\<lparr>dockerfile := Some ''docker/Dockerfile.prod'',
                                  dockerContext := Some ''apps/test-app''\<rparr>)
                   test_context)) \<and>
   projects test_context ''test-app'' = Some test_project \<and>
   ''/test/root/docker/Dockerfile.prod''
     \<noteq> posix_join (project_root test_project) ''docker/Dockerfile.prod'' \<and>
   ''/test/root/docker/Dockerfile.prod''
     \<noteq> posix_join (posix_join (root test_context) (project_root test_project))
         ''docker/Dockerfile.prod'' \<and>
   ''/test/root/apps/test-app'' \<noteq> posix_join (project_root test_project) ''apps/test-app'' \<and>
   ''/test/root/apps/test-app''
     \<noteq> posix_join (posix_join (root test_context) (project_root test_project)) ''apps/test-app''"
  by (simp add: eval_defs fixture_defs run_defs dockerCommand_def containerBuildInvocation_def
      finalDockerfile_def finalContext_def)

subsection \<open>C6: a failing manifest against a failing tag listing\<close>

text \<open>
  Claim C6. In every invocation that finds its project: when reading the manifest throws,
  the warning of line 56 is written, the tags are listed, and the executor settles as it
  does in the world whose manifest is read and has no version; when the manifest gives no
  version and listing the tags fails, the executor returns a failure, the listing is the
  only command it has given to the shell, and the build target is not run.
\<close>

theorem manifest_failure_recovers_tag_failure_aborts:
  assumes "projects ctx (appName options) = Some pc"
  shows "(readJsonFile w (path_join w (project_root pc) ''package.json'') = Inl readError \<longrightarrow>
            ConsoleWarn (msg_could_not_read (appName options)
                           (path_join w (project_root pc) ''package.json'') readError)
              \<in> set (fst (tagAndBuild w options ctx)) \<and>
            Exec git_tag_command \<in> set (fst (tagAndBuild w options ctx)) \<and>
            snd (tagAndBuild w options ctx) =
              snd (tagAndBuild (w\<lparr>readJsonFile := (\<lambda>p. Inr \<lparr>version = None\<rparr>)\<rparr>) options ctx)) \<and>
         (manifestVersion w (project_root pc) = None \<and> exec w git_tag_command = Inl err \<longrightarrow>
            snd (tagAndBuild w options ctx) = Returned False \<and>
            filter is_Exec (fst (tagAndBuild w options ctx)) = [Exec git_tag_command] \<and>
            (\<forall>p t c. RunExecutor p t c \<notin> set (fst (tagAndBuild w options ctx))))"
proof (intro conjI impI)
  assume rf: "readJsonFile w (path_join w (project_root pc) ''package.json'') = Inl readError"
  then have mv: "manifestVersion w (project_root pc) = None"
    by (simp add: manifestVersion_def)
  show "ConsoleWarn (msg_could_not_read (appName options)
                           (path_join w (project_root pc) ''package.json'') readError)
              \<in> set (fst (tagAndBuild w options ctx))"
    by (simp add: fst_tagAndBuild[OF assms] fst_resolveVersion readPackageJson_read_fails[OF rf])
  have "Exec git_tag_command \<in> set (filter is_Exec (fst (resolveVersion w options (project_root pc))))"
    by (simp only: filter_Exec_resolveVersion[OF mv]) simp
  then show "Exec git_tag_command \<in> set (fst (tagAndBuild w options ctx))"
    by (simp add: fst_tagAndBuild[OF assms])
  show "snd (tagAndBuild w options ctx) =
          snd (tagAndBuild (w\<lparr>readJsonFile := (\<lambda>p. Inr \<lparr>version = None\<rparr>)\<rparr>) options ctx)"
    using assms mv by (rule snd_tagAndBuild_without_manifest)
next
  assume a: "manifestVersion w (project_root pc) = None \<and> exec w git_tag_command = Inl err"
  then have "snd (resolveVersion w options (project_root pc)) = Inl (Returned False)"
    by (simp add: snd_resolveVersion readPackageJson_None deriveFromGitTags_listing_fails
        truthy_noVersion)
  with assms a have r: "snd (tagAndBuild w options ctx) = Returned False \<and>
         filter is_Exec (fst (tagAndBuild w options ctx)) = [Exec git_tag_command] \<and>
         (\<forall>p t c. RunExecutor p t c \<notin> set (fst (tagAndBuild w options ctx)))"
    by (simp add: resolution_fails)
  from r show "snd (tagAndBuild w options ctx) = Returned False" by simp
  from r show "filter is_Exec (fst (tagAndBuild w options ctx)) = [Exec git_tag_command]" by simp
  from r show "\<forall>p t c. RunExecutor p t c \<notin> set (fst (tagAndBuild w options ctx))" by simp
qed

text \<open>
  A world where both the manifest and the listing fail, and one where the manifest fails
  and the listing names \<^verbatim>\<open>1.2.3\<close>: the second run succeeds.
\<close>

theorem manifest_failure_recovers_tag_failure_aborts_witness:
  "ConsoleWarn (msg_could_not_read ''test-app'' ''apps/test-app/package.json'' ''File not found'')
     \<in> set (fst (tagAndBuild (test_world (Inl ''File not found'') (Inl ''Git command failed'') (Inr [Inr True]))
                   test_options test_context)) \<and>
   Exec git_tag_command
     \<in> set (fst (tagAndBuild (test_world (Inl ''File not found'') (Inl ''Git command failed'') (Inr [Inr True]))
                   test_options test_context)) \<and>
   snd (tagAndBuild (test_world (Inl ''File not found'') (Inl ''Git command failed'') (Inr [Inr True]))
          test_options test_context) = Returned False \<and>
   filter is_Exec
     (fst (tagAndBuild (test_world (Inl ''File not found'') (Inl ''Git command failed'') (Inr [Inr True]))
             test_options test_context)) = [Exec git_tag_command] \<and>
   snd (tagAndBuild (test_world (Inl ''File not found'') (Inr (''test-app/v1.2.3'', [])) (Inr [Inr True]))
          test_options test_context) = Returned True"
proof -
  let ?w = "test_world (Inl ''File not found'') (Inl ''Git command failed'') (Inr [Inr True])"
  let ?w2 = "test_world (Inl ''File not found'') (Inr (''test-app/v1.2.3'', [])) (Inr [Inr True])"
  have r: "readJsonFile ?w (path_join ?w (project_root test_project) ''package.json'') = Inl ''File not found''"
    by (simp add: test_world_def)
  have r2: "readJsonFile ?w2 (path_join ?w2 (project_root test_project) ''package.json'') = Inl ''File not found''"
    by (simp add: test_world_def)
  have m: "manifestVersion ?w (project_root test_project) = None \<and>
           exec ?w git_tag_command = Inl ''Git command failed''"
    by (simp add: manifestVersion_def test_world_def)
  have j: "path_join ?w (project_root test_project) ''package.json'' = ''apps/test-app/package.json''"
    by (simp add: eval_defs fixture_defs)
  have t: "snd (tagAndBuild (?w2\<lparr>readJsonFile := (\<lambda>p. Inr \<lparr>version = None\<rparr>)\<rparr>) test_options test_context)
           = Returned True"
    by (simp add: eval_defs fixture_defs run_defs)
  note inst = manifest_failure_recovers_tag_failure_aborts[OF test_project_found]
  have n: "appName test_options = ''test-app''"
    by (simp add: test_options_def)
  from inst[of ?w "''File not found''" "''Git command failed''"] r m
  have a: "ConsoleWarn (msg_could_not_read (appName test_options)
              (path_join ?w (project_root test_project) ''package.json'') ''File not found'')
             \<in> set (fst (tagAndBuild ?w test_options test_context)) \<and>
           Exec git_tag_command \<in> set (fst (tagAndBuild ?w test_options test_context)) \<and>
           snd (tagAndBuild ?w test_options test_context) = Returned False \<and>
           filter is_Exec (fst (tagAndBuild ?w test_options test_context)) = [Exec git_tag_command]"
    by blast
  from inst[of ?w2 "''File not found''" "''Git command failed''"] r2
  have "snd (tagAndBuild ?w2 test_options test_context) =
        snd (tagAndBuild (?w2\<lparr>readJsonFile := (\<lambda>p. Inr \<lparr>version = None\<rparr>)\<rparr>) test_options test_context)"
    by blast
  with t have b: "snd (tagAndBuild ?w2 test_options test_context) = Returned True"
    by simp
  from a b show ?thesis unfolding j n by blast
qed

subsection \<open>C7: no version, no build\<close>

text \<open>
  Claim C7. When the manifest gives no version and either no listed tag matches the
  pattern or the first one that matches captures nothing, the executor returns a failure;
  the listing of the tags is the only command it has given to the shell (the revision
  identifier, asked for where the tags are completed, and the container build are not),
  and the build target is not run.
\<close>

theorem no_version_no_build:
  assumes "projects ctx (appName options) = Some pc"
    and "manifestVersion w (project_root pc) = None"
    and "exec w git_tag_command = Inr (gitTagsOutput, err)"
    and "new_RegExp w
           (tagPattern (appName options)
              (case tagPrefix options of None \<Rightarrow> ''v'' | Some p \<Rightarrow> (if p = [] then ''v'' else p)))
         = Inr re"
    and "firstMatch re (parseTags gitTagsOutput) = None \<or>
         (\<exists>tag. firstMatch re (parseTags gitTagsOutput) = Some tag \<and> capturedRest re tag = [])"
  shows "snd (tagAndBuild w options ctx) = Returned False \<and>
         filter is_Exec (fst (tagAndBuild w options ctx)) = [Exec git_tag_command] \<and>
         (\<forall>p t c. RunExecutor p t c \<notin> set (fst (tagAndBuild w options ctx)))"
proof -
  have re: "new_RegExp w (targetTagPattern_source options) = Inr re"
    using assms(4) by (simp add: targetTagPattern_source_eq tagPattern_def)
  have nv: "snd (readPackageJson w options (project_root pc)) = noVersion"
    using assms(2) by (rule readPackageJson_None)
  from assms(5) have "snd (deriveFromGitTags w options noVersion) = Inl (Returned False) \<or>
      snd (deriveFromGitTags w options noVersion) = Inr noVersion"
  proof
    assume "firstMatch re (parseTags gitTagsOutput) = None"
    with truthy_noVersion assms(3) re show ?thesis
      by (simp add: deriveFromGitTags_no_match)
  next
    assume "\<exists>tag. firstMatch re (parseTags gitTagsOutput) = Some tag \<and> capturedRest re tag = []"
    then obtain tag where "firstMatch re (parseTags gitTagsOutput) = Some tag"
      and "capturedRest re tag = []" by blast
    with truthy_noVersion assms(3) re show ?thesis
      by (simp add: deriveFromGitTags_match)
  qed
  then have "snd (resolveVersion w options (project_root pc)) = Inl (Returned False)"
    by (auto simp: snd_resolveVersion nv truthy_noVersion)
  with assms(1,2) show ?thesis by (rule resolution_fails)
qed

text \<open>
  A listing without a matching tag, and a listing whose matching tag is the bare prefix.
\<close>

theorem no_version_no_build_witness:
  "firstMatch test_pattern (parseTags ''other-tag'') = None \<and>
   snd (tagAndBuild (tags_world ''other-tag'') test_options test_context) = Returned False \<and>
   filter is_Exec (fst (tagAndBuild (tags_world ''other-tag'') test_options test_context))
     = [Exec git_tag_command] \<and>
   firstMatch test_pattern (parseTags ''test-app/v'') = Some ''test-app/v'' \<and>
   capturedRest test_pattern ''test-app/v'' = [] \<and>
   snd (tagAndBuild (tags_world ''test-app/v'') test_options test_context) = Returned False \<and>
   filter is_Exec (fst (tagAndBuild (tags_world ''test-app/v'') test_options test_context))
     = [Exec git_tag_command]"
proof -
  have m: "manifestVersion (tags_world listing) (project_root test_project) = None" for listing
    by (simp add: eval_defs fixture_defs)
  have e: "exec (tags_world listing) git_tag_command = Inr (listing, [])" for listing
    by (simp add: tags_world_def test_world_def)
  have f1: "firstMatch test_pattern (parseTags ''other-tag'') = None"
    by (simp add: eval_defs fixture_defs)
  have f2: "firstMatch test_pattern (parseTags ''test-app/v'') = Some ''test-app/v''"
    by (simp add: eval_defs fixture_defs)
  have c2: "capturedRest test_pattern ''test-app/v'' = []"
    by (simp add: eval_defs fixture_defs)
  have d1: "firstMatch test_pattern (parseTags ''other-tag'') = None \<or>
    (\<exists>tag. firstMatch test_pattern (parseTags ''other-tag'') = Some tag \<and> capturedRest test_pattern tag = [])"
    using f1 by simp
  have d2: "firstMatch test_pattern (parseTags ''test-app/v'') = None \<or>
    (\<exists>tag. firstMatch test_pattern (parseTags ''test-app/v'') = Some tag \<and> capturedRest test_pattern tag = [])"
    using f2 c2 by simp
  from no_version_no_build[OF test_project_found m e test_pattern_compiles d1]
       no_version_no_build[OF test_project_found m e test_pattern_compiles d2] f1 f2 c2
  show ?thesis by simp
qed

subsection \<open>C8: the build target comes first\<close>

text \<open>
  Claim C8. In every invocation whose version is resolved, the build target is run next,
  after the effects of resolution; when one of its results is not a success (those before
  it being successes), the executor returns a failure without giving the shell any command
  beyond those of resolution; and whenever the revision identifier is asked for, the build
  target has resolved and every one of its results was a success.
\<close>

theorem build_target_before_container_build:
  assumes "projects ctx (appName options) = Some pc"
    and "resolveVersion w options (project_root pc) = (e1, Inr (v, vs))"
  shows "(\<exists>rest. fst (tagAndBuild w options ctx) =
            [ConsoleLog (msg_starting (appName options)),
             ConsoleLogOptions ''Executor Options'' options]
            @ e1
            @ [ConsoleLog (msg_running_build (buildTarget options) (appName options)),
               RunExecutor (appName options) (buildTarget options) ''production'']
            @ rest) \<and>
         (\<forall>results pre post.
            runExecutor w (appName options) (buildTarget options) ''production'' = Inr results \<and>
            results = pre @ Inr False # post \<and> (\<forall>r\<in>set pre. r = Inr True) \<longrightarrow>
            snd (tagAndBuild w options ctx) = Returned False \<and>
            filter is_Exec (fst (tagAndBuild w options ctx)) = filter is_Exec e1) \<and>
         (Exec git_rev_parse_command \<in> set (fst (tagAndBuild w options ctx)) \<longrightarrow>
            (\<exists>results.
               runExecutor w (appName options) (buildTarget options) ''production'' = Inr results \<and>
               (\<forall>r\<in>set results. r = Inr True)))"
proof (intro conjI allI impI)
  show "\<exists>rest. fst (tagAndBuild w options ctx) =
            [ConsoleLog (msg_starting (appName options)),
             ConsoleLogOptions ''Executor Options'' options]
            @ e1
            @ [ConsoleLog (msg_running_build (buildTarget options) (appName options)),
               RunExecutor (appName options) (buildTarget options) ''production'']
            @ rest"
    by (simp add: fst_tagAndBuild[OF assms(1)] assms(2) fst_runBuild)
next
  fix results pre post
  assume a: "runExecutor w (appName options) (buildTarget options) ''production'' = Inr results \<and>
            results = pre @ Inr False # post \<and> (\<forall>r\<in>set pre. r = Inr True)"
  then have f: "snd (runBuild w options) = Inl (Returned False)"
    by (simp add: snd_runBuild forAwait_failure)
  show "snd (tagAndBuild w options ctx) = Returned False"
    by (simp add: snd_tagAndBuild[OF assms(1)] assms(2) f)
  have "filter is_Exec (fst (runBuild w options)) = []"
    using runBuild_no_Exec[of _ w options]
    by (auto simp: filter_empty_conv elim: is_Exec.elims)
  then show "filter is_Exec (fst (tagAndBuild w options ctx)) = filter is_Exec e1"
    by (simp add: fst_tagAndBuild[OF assms(1)] assms(2) f)
next
  assume "Exec git_rev_parse_command \<in> set (fst (tagAndBuild w options ctx))"
  moreover have "Exec git_rev_parse_command \<notin> set e1"
    using resolveVersion_Exec[of git_rev_parse_command w options "project_root pc"] assms(2)
    by (auto simp: git_rev_parse_command_def git_tag_command_def)
  ultimately have "\<exists>u. snd (runBuild w options) = Inr u"
    using runBuild_no_Exec[of git_rev_parse_command w options]
    by (auto simp: fst_tagAndBuild[OF assms(1)] assms(2) split: sum.splits)
  then show "\<exists>results.
               runExecutor w (appName options) (buildTarget options) ''production'' = Inr results \<and>
               (\<forall>r\<in>set results. r = Inr True)"
    using runBuild_completed by blast
qed

text \<open>
  A build target whose second result is a failure.
\<close>

theorem build_target_before_container_build_witness:
  "snd (tagAndBuild (test_world (Inr \<lparr>version = Some ''1.2.3''\<rparr>) (Inl ''Git command failed'')
                      (Inr [Inr True, Inr False, Inr True]))
          test_options test_context) = Returned False \<and>
   filter is_Exec
     (fst (tagAndBuild (test_world (Inr \<lparr>version = Some ''1.2.3''\<rparr>) (Inl ''Git command failed'')
                          (Inr [Inr True, Inr False, Inr True]))
             test_options test_context)) = [] \<and>
   RunExecutor ''test-app'' ''build'' ''production''
     \<in> set (fst (tagAndBuild (test_world (Inr \<lparr>version = Some ''1.2.3''\<rparr>) (Inl ''Git command failed'')
                                 (Inr [Inr True, Inr False, Inr True]))
                   test_options test_context))"
proof -
  let ?w = "test_world (Inr \<lparr>version = Some ''1.2.3''\<rparr>) (Inl ''Git command failed'')
              (Inr [Inr True, Inr False, Inr True])"
  let ?e1 = "[ReadJsonFile ''apps/test-app/package.json'', ConsoleLog (msg_found_version ''1.2.3'')]"
  have r: "resolveVersion ?w test_options (project_root test_project)
           = (?e1, Inr (''1.2.3'', setVersion ''1.2.3''))"
    by (simp add: resolveVersion_manifest manifestVersion_def test_world_def truthy_def
        test_project_def posix_join_def posix_normalize_def Let_def)
  have x: "runExecutor ?w (appName test_options) (buildTarget test_options) ''production''
             = Inr [Inr True, Inr False, Inr True] \<and>
           [Inr True, Inr False, Inr True] = [Inr True] @ Inr False # [Inr True] \<and>
           (\<forall>r\<in>set [Inr True]. r = (Inr True :: string + bool))"
    by (simp add: test_world_def)
  note inst = build_target_before_container_build[OF test_project_found r]
  from inst have a: "\<exists>rest. fst (tagAndBuild ?w test_options test_context) =
            [ConsoleLog (msg_starting (appName test_options)),
             ConsoleLogOptions ''Executor Options'' test_options]
            @ ?e1
            @ [ConsoleLog (msg_running_build (buildTarget test_options) (appName test_options)),
               RunExecutor (appName test_options) (buildTarget test_options) ''production'']
            @ rest" by blast
  from inst x have b: "snd (tagAndBuild ?w test_options test_context) = Returned False \<and>
      filter is_Exec (fst (tagAndBuild ?w test_options test_context)) = filter is_Exec ?e1"
    by blast
  from a have "RunExecutor ''test-app'' ''build'' ''production''
     \<in> set (fst (tagAndBuild ?w test_options test_context))"
    by (auto simp: test_options_def)
  with b show ?thesis by simp
qed

subsection \<open>C9: the tags are a function of their inputs\<close>

text \<open>
  Claim C9. The tag list depends on nothing but the resolved version with its fields, the
  repository, the application name, \<^verbatim>\<open>generateMajorMinor\<close>, the additional tags and the
  short revision identifier: two invocations that agree on these produce the same list in
  the same order, whatever their other options and whatever follows the first seven
  characters of the revision.
\<close>

theorem dockerTags_function_of_inputs:
  assumes "dockerRepository o1 = dockerRepository o2"
    and "appName o1 = appName o2"
    and "generateMajorMinor o1 = generateMajorMinor o2"
    and "additionalTags o1 = additionalTags o2"
    and "shortSha out1 = shortSha out2"
  shows "dockerTags o1 v mm mj (shortSha out1) = dockerTags o2 v mm mj (shortSha out2)"
  using assms by (simp add: dockerTags_def)

text \<open>
  Two sets of options that differ in the build target, the Dockerfile, the push flag and
  the tag prefix, and two revisions with the same first seven characters.
\<close>

theorem dockerTags_function_of_inputs_witness:
  "dockerTags test_options ''1.2.3'' (Some ''1.2'') (Some ''1'') (shortSha ''abc1234def0'')
   = dockerTags (test_options\<lparr>buildTarget := ''bundle'', dockerfile := None, push := Some True,
                               tagPrefix := Some ''release-''\<rparr>)
       ''1.2.3'' (Some ''1.2'') (Some ''1'') (shortSha (''abc1234'' @ nl))"
proof -
  have "shortSha ''abc1234def0'' = shortSha (''abc1234'' @ nl)"
    by (simp add: shortSha_def trim_def is_whitespace_def nl_def)
  then show ?thesis
    by (intro dockerTags_function_of_inputs) (simp_all add: test_options_def)
qed

subsection \<open>C10: the tags are not listed when the manifest has a version\<close>

text \<open>
  Claim C10. When the manifest declares a non-empty version, the executor never lists the
  revision tags: every command it gives to the shell is the query for the revision
  identifier or a container build.
\<close>

theorem manifest_version_skips_tag_listing:
  assumes "projects ctx (appName options) = Some pc"
    and "manifestVersion w (project_root pc) = Some V"
  shows "Exec git_tag_command \<notin> set (fst (tagAndBuild w options ctx)) \<and>
         (\<forall>c. Exec c \<in> set (fst (tagAndBuild w options ctx)) \<longrightarrow>
               c = git_rev_parse_command \<or> prefix ''docker buildx build'' c)"
proof -
  have ex: "c = git_rev_parse_command \<or> prefix ''docker buildx build'' c"
    if "Exec c \<in> set (fst (tagAndBuild w options ctx))" for c
    using that unfolding fst_tagAndBuild[OF assms(1)] resolveVersion_manifest[OF assms(2)]
    using runBuild_no_Exec[of c w options]
    by (auto split: sum.splits dest!: dockerBuild_Exec simp: dockerCommand_prefix)
  have "git_tag_command \<noteq> git_rev_parse_command"
    by (simp add: git_tag_command_def git_rev_parse_command_def)
  moreover have "\<not> prefix ''docker buildx build'' git_tag_command"
    by (simp add: git_tag_command_def)
  ultimately show ?thesis using ex by blast
qed

text \<open>
  A world whose manifest declares \<^verbatim>\<open>1.2.3\<close> while a tag names another version.
\<close>

theorem manifest_version_skips_tag_listing_witness:
  "manifestVersion (manifest_world ''1.2.3'') ''apps/test-app'' = Some ''1.2.3'' \<and>
   Exec git_tag_command \<notin> set (fst (tagAndBuild (manifest_world ''1.2.3'') test_options test_context)) \<and>
   Exec git_rev_parse_command \<in> set (fst (tagAndBuild (manifest_world ''1.2.3'') test_options test_context))"
proof -
  have m: "manifestVersion (manifest_world ''1.2.3'') (project_root test_project) = Some ''1.2.3''"
    by (simp add: manifest_world_version test_project_def)
  have "Exec git_rev_parse_command \<in> set (fst (tagAndBuild (manifest_world ''1.2.3'') test_options test_context))"
    by (simp add: eval_defs fixture_defs run_defs)
  with manifest_version_skips_tag_listing[OF test_project_found m] m show ?thesis
    by (simp add: test_project_def)
qed

end
